theory Spec2Isabelle
  imports Main "HOL-Library.Sublist" "HOL-Library.List_Lexorder" "HOL-Library.Char_ord"
begin

section \<open>Conversation store (conversations.go)\<close>

text \<open>
  A Go \<^verbatim>\<open>string\<close> is a sequence of bytes and \<^verbatim>\<open>len\<close> counts bytes, so Go strings are
  modelled by \<^typ>\<open>string\<close> (a list of 8-bit characters) and \<^verbatim>\<open>len\<close> by \<^const>\<open>length\<close>.
\<close>

record Message =
  Role :: string
  Content :: string

record Conversation =
  InitMessage :: string
  LastMessage :: string
  Messages :: "Message list"

text \<open>The zero value \<^verbatim>\<open>Conversation{}\<close>.\<close>

definition emptyConversation :: Conversation where
  "emptyConversation = \<lparr>InitMessage = [], LastMessage = [], Messages = []\<rparr>"

definition addMessage :: "Message \<Rightarrow> Conversation \<Rightarrow> Conversation" where
  "addMessage m c = c\<lparr>Messages := Messages c @ [m], LastMessage := Content m\<rparr>"

definition initMessage :: "Message \<Rightarrow> Conversation \<Rightarrow> Conversation" where
  "initMessage m c =
     c\<lparr>InitMessage := Content m, LastMessage := Content m, Messages := Messages c @ [m]\<rparr>"

definition getTokenCount :: "Conversation \<Rightarrow> nat" where
  "getTokenCount c = length (InitMessage c) div 4"

text \<open>\<^verbatim>\<open>strings.Contains(s, sub)\<close>: \<open>sub\<close> occurs in \<open>s\<close> as a contiguous block.\<close>

fun Contains :: "string \<Rightarrow> string \<Rightarrow> bool" where
  "Contains [] sub = (sub = [])"
| "Contains (c # s) sub = (prefix sub (c # s) \<or> Contains s sub)"



fun getEngineTokenLimit :: "(string \<times> nat) list \<Rightarrow> string \<Rightarrow> nat" where
  "getEngineTokenLimit [] engine = 4000"
| "getEngineTokenLimit ((a, e) # order) engine =
     (if Contains engine a then e else getEngineTokenLimit order engine)"

definition tokenizeMessage :: "(string \<times> nat) list \<Rightarrow> string \<Rightarrow> Conversation \<Rightarrow> Conversation" where
  "tokenizeMessage order engine c =
     (let tokenCount = getTokenCount c;
          maxTokens = getEngineTokenLimit order engine
      in if tokenCount > maxTokens
         then c\<lparr>Messages := [\<lparr>Role = ''system'', Content = InitMessage c\<rparr>,
                              \<lparr>Role = ''user'', Content = LastMessage c\<rparr>]\<rparr>
         else c)"


text \<open>
  How \<^verbatim>\<open>Ask\<close> (ask.go, lines 117-126) makes the conversation of an unknown identifier:
  the zero value, then \<^verbatim>\<open>initMessage\<close> with the system message.
\<close>

definition newConversation :: "string \<Rightarrow> Conversation" where
  "newConversation init = initMessage \<lparr>Role = ''system'', Content = init\<rparr> emptyConversation"

text \<open>The operations a conversation goes through: appends of either role and the windowing check.\<close>

datatype conv_op =
    AppendUser string
  | AppendAssistant string
  | Window "(string \<times> nat) list" string

fun apply_conv_op :: "Conversation \<Rightarrow> conv_op \<Rightarrow> Conversation" where
  "apply_conv_op c (AppendUser t) = addMessage \<lparr>Role = ''user'', Content = t\<rparr> c"
| "apply_conv_op c (AppendAssistant t) = addMessage \<lparr>Role = ''assistant'', Content = t\<rparr> c"
| "apply_conv_op c (Window order engine) = tokenizeMessage order engine c"

definition run_conv_ops :: "Conversation \<Rightarrow> conv_op list \<Rightarrow> Conversation" where
  "run_conv_ops c ops = foldl apply_conv_op c ops"


section \<open>Errors and panics\<close>

text \<open>
  The ways in which a function of the client ends without its result: \<open>Errorf m\<close> is the
  error of \<^verbatim>\<open>fmt.Errorf\<close> with message \<open>m\<close> (where the source passes a text as the format,
  \<open>m\<close> is that text); \<open>ChatError m code\<close> is \<^verbatim>\<open>&ChatError{m, code}\<close>; \<open>TransportError\<close>
  is the error of an HTTP request that gets no response, \<open>URLError\<close> that of
  \<^verbatim>\<open>http.NewRequest\<close> on an address it refuses, \<open>DecodeError\<close> that of a JSON decoder,
  \<open>EncodeError\<close> that of a JSON encoder, \<open>CreateError\<close> that of \<^verbatim>\<open>os.Create\<close>; \<open>Panic\<close> is
  a run-time panic.
\<close>

datatype error =
    Errorf string
  | ChatError string nat
  | TransportError
  | URLError
  | DecodeError
  | EncodeError
  | CreateError
  | Panic string

section \<open>Library functions on strings\<close>

definition HasPrefix :: "string \<Rightarrow> string \<Rightarrow> bool" where
  "HasPrefix s p = prefix p s"

definition TrimPrefix :: "string \<Rightarrow> string \<Rightarrow> string" where
  "TrimPrefix s p = (if HasPrefix s p then drop (length p) s else s)"


text \<open>\<^verbatim>\<open>strings.Cut(s, sep)\<close>: the text before and after the first occurrence of \<open>sep\<close>.\<close>

fun Cut :: "string \<Rightarrow> string \<Rightarrow> (string \<times> string) option" where
  "Cut [] sep = (if sep = [] then Some ([], []) else None)"
| "Cut (c # s) sep =
     (if prefix sep (c # s) then Some ([], drop (length sep) (c # s))
      else map_option (\<lambda>(b, a). (c # b, a)) (Cut s sep))"

text \<open>
  \<^verbatim>\<open>regexp.MustCompile(`{"detail":.*}`).FindString(line)\<close>: the leftmost match, as long as
  possible; it runs from the first \<^verbatim>\<open>{"detail":\<close> to the last closing brace behind it, and
  is empty when there is none.
\<close>

definition detailOpen :: string where
  \<open>detailOpen = ''{"detail":''\<close>

definition FindString_detail :: "string \<Rightarrow> string" where
  "FindString_detail line =
     (case Cut line detailOpen of
        None \<Rightarrow> []
      | Some (b, a) \<Rightarrow>
          if CHR ''}'' \<in> set a
          then detailOpen @ rev (dropWhile (\<lambda>c. c \<noteq> CHR ''}'') (rev a))
          else [])"


text \<open>
  \<^verbatim>\<open>strings.Split(s, sep)\<close> for a separator that is not empty. The second argument of
  \<open>splitAcc\<close> counts the bytes of a separator still to be skipped, the third holds the piece
  being read, in reverse.
\<close>

fun splitAcc :: "string \<Rightarrow> nat \<Rightarrow> string \<Rightarrow> string \<Rightarrow> string list" where
  "splitAcc sep k acc [] = [rev acc]"
| "splitAcc sep (Suc k) acc (c # s) = splitAcc sep k acc s"
| "splitAcc sep 0 acc (c # s) =
     (if prefix sep (c # s) then rev acc # splitAcc sep (length sep - 1) [] s
      else splitAcc sep 0 (c # acc) s)"

definition Split :: "string \<Rightarrow> string \<Rightarrow> string list" where
  "Split s sep = splitAcc sep 0 [] s"

text \<open>Indexing a slice: out of range is a run-time panic.\<close>

definition index :: "'a list \<Rightarrow> nat \<Rightarrow> error + 'a" where
  "index xs i = (if i < length xs then Inr (xs ! i) else Inl (Panic ''index out of range''))"

section \<open>Decoded JSON values\<close>

text \<open>
  What \<^verbatim>\<open>json.Unmarshal\<close> stores in an \<^verbatim>\<open>interface{}\<close>: \<^verbatim>\<open>nil\<close>, a \<^verbatim>\<open>bool\<close>, a
  \<^verbatim>\<open>float64\<close> (kept as the literal it was read from), a \<^verbatim>\<open>string\<close>, a
  \<^verbatim>\<open>[]interface{}\<close> or a \<^verbatim>\<open>map[string]interface{}\<close> (kept as the list of its entries).
\<close>

datatype json =
    JNull
  | JBool bool
  | JNumber string
  | JString string
  | JArray "json list"
  | JObject "(string \<times> json) list"

text \<open>
  \<^verbatim>\<open>m[k]\<close> on a decoded object. On anything that is not an object the type assertion to a
  map has failed before.
\<close>

fun field :: "json \<Rightarrow> string \<Rightarrow> json option" where
  "field (JObject kvs) k = map_of kvs k"
| "field j k = None"

definition checkFields :: "json \<Rightarrow> bool" where
  "checkFields parsedLine =
     (case field parsedLine ''message'' of
        Some (JObject message) \<Rightarrow>
          (case field (JObject message) ''content'' of
             Some (JObject content) \<Rightarrow>
               (case field (JObject content) ''parts'' of
                  Some (JArray parts) \<Rightarrow> if length parts = 0 then False else True
                | _ \<Rightarrow> False)
           | _ \<Rightarrow> False)
      | _ \<Rightarrow> False)"

text \<open>
  A \<^verbatim>\<open>time.Time\<close> is an instant, given by its distance from the zero value of the type
  (the zero value is 0; instants before it are negative).
\<close>

type_synonym time = int

text \<open>
  The functions of the Go library whose behaviour the client depends on, and which are not
  written out here, are arguments of the model:
  \<^item> \<open>json_Unmarshal\<close> is \<^verbatim>\<open>json.Unmarshal\<close> into a \<^verbatim>\<open>map[string]interface{}\<close> (\<open>None\<close>
    when it returns an error);
  \<^item> \<open>fmt_float\<close> is what \<^verbatim>\<open>fmt\<close> prints for the \<^verbatim>\<open>float64\<close> read from a literal;
  \<^item> \<open>strings_TrimSpace\<close> is \<^verbatim>\<open>strings.TrimSpace\<close>;
  \<^item> \<open>http_NewRequest\<close> tells whether \<^verbatim>\<open>http.NewRequest\<close> makes a request for an
    address (when it refuses the address it returns an error and a \<^verbatim>\<open>nil\<close> request);
  \<^item> \<open>json_string\<close> is what a string reads back as once the JSON encoder has written it
    (the encoder replaces every byte that is not part of a valid UTF-8 encoding by U+FFFD);
  \<^item> \<open>json_time\<close> is what an instant reads back as once the JSON encoder has written it,
    and \<open>None\<close> when \<^verbatim>\<open>time.Time.MarshalJSON\<close> returns an error (as for a year outside
    0 to 9999).
  The properties that are stated for every library hold whatever these functions do.
\<close>

record stdlib =
  json_Unmarshal :: "string \<Rightarrow> json option"
  fmt_float :: "string \<Rightarrow> string"
  strings_TrimSpace :: "string \<Rightarrow> string"
  http_NewRequest :: "string \<Rightarrow> bool"
  json_string :: "string \<Rightarrow> string"
  json_time :: "time \<Rightarrow> time option"

text \<open>
  \<^verbatim>\<open>fmt.Sprintf("%v", x)\<close> on a decoded value: a string as it is, \<^verbatim>\<open><nil>\<close>, \<^verbatim>\<open>true\<close>,
  \<^verbatim>\<open>false\<close>, the elements of a slice between brackets, and the entries of a map as
  \<^verbatim>\<open>map[k:v ...]\<close> (\<^verbatim>\<open>fmt\<close> prints them in the order of the keys, which is the order in
  which \<open>parseJSON\<close> below keeps them).
\<close>

fun joinWith :: "string \<Rightarrow> string list \<Rightarrow> string" where
  "joinWith sep [] = []"
| "joinWith sep [x] = x"
| "joinWith sep (x # y # ys) = x @ sep @ joinWith sep (y # ys)"

fun printValue :: "(string \<Rightarrow> string) \<Rightarrow> json \<Rightarrow> string" where
  "printValue f JNull = ''<nil>''"
| "printValue f (JBool b) = (if b then ''true'' else ''false'')"
| "printValue f (JNumber n) = f n"
| "printValue f (JString s) = s"
| "printValue f (JArray xs) = ''['' @ joinWith '' '' (map (printValue f) xs) @ '']''"
| "printValue f (JObject kvs) =
     ''map['' @ joinWith '' '' (map (\<lambda>(k, v). k @ '':'' @ printValue f v) kvs) @ '']''"

definition Sprintf_v :: "stdlib \<Rightarrow> json \<Rightarrow> string" where
  "Sprintf_v L x = printValue (fmt_float L) x"

section \<open>Stream decoder (ask.go)\<close>

record ChatResponse =
  Message :: string
  ConversationID :: string
  ParentID :: string
  Model :: string
  done' :: bool

text \<open>
  A channel of \<^verbatim>\<open>*ChatResponse\<close> as the decoder uses it: what has been sent on it, in
  order, and whether it has been closed. The \<^verbatim>\<open>nil\<close> channel is \<open>None\<close>. Closing the
  \<^verbatim>\<open>nil\<close> channel and closing a closed channel are run-time panics. A send is taken to
  complete: the receiver takes what is sent, so that the buffer of 60 is never full for good.
\<close>

record Channel =
  sent :: "ChatResponse list"
  closed :: bool

definition newChannel :: Channel where
  "newChannel = \<lparr>sent = [], closed = False\<rparr>"

definition send :: "Channel \<Rightarrow> ChatResponse \<Rightarrow> Channel" where
  "send ch r = ch\<lparr>sent := sent ch @ [r]\<rparr>"

definition close :: "Channel option \<Rightarrow> error + Channel option" where
  "close ch =
     (case ch of
        None \<Rightarrow> Inl (Panic ''close of nil channel'')
      | Some c \<Rightarrow>
          if closed c then Inl (Panic ''close of closed channel'')
          else Inr (Some (c\<lparr>closed := True\<rparr>)))"

text \<open>
  Lines 424-435 of \<^verbatim>\<open>startScan\<close>: what one \<^verbatim>\<open>data:\<close> payload decodes to. \<open>Ignored\<close> is
  every path that continues with the next line without a frame (a decoding error, a failed
  \<^verbatim>\<open>checkFields\<close>, a content type that is not \<^verbatim>\<open>text\<close>, logged as a warning). \<open>Text\<close>
  carries \<^verbatim>\<open>message\<close>, \<^verbatim>\<open>conversationID\<close> and \<^verbatim>\<open>parentID\<close>. The type assertions
  \<^verbatim>\<open>.(string)\<close> on \<^verbatim>\<open>conversation_id\<close> and on the \<^verbatim>\<open>id\<close> of the message are unchecked:
  they panic on a value that is absent or not a string.
\<close>

datatype decoded =
    Ignored
  | Text string string string
  | Crash string

definition decodeData :: "stdlib \<Rightarrow> string \<Rightarrow> decoded" where
  "decodeData L line =
     (case json_Unmarshal L line of
        None \<Rightarrow> Ignored
      | Some parsedLine \<Rightarrow>
          if \<not> checkFields parsedLine then Ignored
          else
            (case field parsedLine ''message'' of
               None \<Rightarrow> Crash ''interface conversion''
             | Some message \<Rightarrow>
                 (case field message ''content'' of
                    None \<Rightarrow> Crash ''interface conversion''
                  | Some content \<Rightarrow>
                      (case field content ''content_type'' of
                         Some (JString messageContextType) \<Rightarrow>
                           if messageContextType = ''text'' then
                             (case field content ''parts'' of
                                Some (JArray (part # parts)) \<Rightarrow>
                                  (case field parsedLine ''conversation_id'' of
                                     Some (JString conversationID) \<Rightarrow>
                                       (case field message ''id'' of
                                          Some (JString parentID) \<Rightarrow>
                                            Text (Sprintf_v L part) conversationID parentID
                                        | _ \<Rightarrow> Crash ''interface conversion'')
                                   | _ \<Rightarrow> Crash ''interface conversion'')
                              | Some (JArray []) \<Rightarrow> Ignored
                              | _ \<Rightarrow> Crash ''interface conversion'')
                           else Ignored
                       | _ \<Rightarrow> Ignored))))"


text \<open>
  A response body is the list of the lines that the \<^verbatim>\<open>bufio.Scanner\<close> yields from it.
\<close>

text \<open>
  The loop of \<^verbatim>\<open>startScan\<close> over the lines the scanner still yields, with the channel and
  the slice \<^verbatim>\<open>messages\<close> as they stand. The loop ends with \<open>Inr messages\<close> when it leaves
  by \<^verbatim>\<open>break\<close> or at the end of the input, and with \<open>Inl\<close> when the function returns an
  error or panics inside it. The two revisions of the function in the repository differ in
  the literal that \<^verbatim>\<open>strings.Contains\<close> looks for, the first argument here.
\<close>

fun scanLoop ::
  "string \<Rightarrow> stdlib \<Rightarrow> Channel option \<Rightarrow> ChatResponse list \<Rightarrow> string list
     \<Rightarrow> (error + ChatResponse list) \<times> Channel option" where
  "scanLoop marker L streamChannel messages [] = (Inr messages, streamChannel)"
| "scanLoop marker L streamChannel messages (line # rest) =
     (if line = [] \<or> HasPrefix line ''event: '' then scanLoop marker L streamChannel messages rest
      else if \<not> HasPrefix line ''data: '' then scanLoop marker L streamChannel messages rest
      else if Contains line marker then (Inl (Errorf (FindString_detail line)), streamChannel)
      else if TrimPrefix line ''data: '' = ''[DONE]'' then (Inr messages, streamChannel)
      else
        (case decodeData L (TrimPrefix line ''data: '') of
           Ignored \<Rightarrow> scanLoop marker L streamChannel messages rest
         | Crash p \<Rightarrow> (Inl (Panic p), streamChannel)
         | Text message conversationID parentID \<Rightarrow>
             (case streamChannel of
                Some ch \<Rightarrow>
                  if message \<noteq> [] then
                    scanLoop marker L
                      (Some (send ch \<lparr>Message = strings_TrimSpace L message, ConversationID = conversationID,
                                       ParentID = parentID, Model = [], done' = False\<rparr>))
                      messages rest
                  else
                    scanLoop marker L streamChannel
                      (messages @ [\<lparr>Message = strings_TrimSpace L message, ConversationID = conversationID,
                                     ParentID = parentID, Model = [], done' = False\<rparr>])
                      rest
              | None \<Rightarrow>
                  scanLoop marker L streamChannel
                    (messages @ [\<lparr>Message = strings_TrimSpace L message, ConversationID = conversationID,
                                   ParentID = parentID, Model = [], done' = False\<rparr>])
                    rest)))"

definition detailMarker :: string where
  \<open>detailMarker = ''{"detail":}''\<close>

text \<open>
  \<^verbatim>\<open>startScan\<close> of ask.go (lines 405-457): after the loop, \<^verbatim>\<open>close(streamChannel)\<close>
  without a test, then \<^verbatim>\<open>return messages, nil\<close>. The returns inside the loop leave the
  channel as it is.
\<close>

definition startScan ::
  "stdlib \<Rightarrow> Channel option \<Rightarrow> string list \<Rightarrow> (error + ChatResponse list) \<times> Channel option" where
  "startScan L streamChannel lines =
     (case scanLoop detailMarker L streamChannel [] lines of
        (Inl e, ch) \<Rightarrow> (Inl e, ch)
      | (Inr messages, ch) \<Rightarrow>
          (case close ch of
             Inl p \<Rightarrow> (Inl p, ch)
           | Inr ch' \<Rightarrow> (Inr messages, ch')))"

text \<open>
  What a call of \<^verbatim>\<open>parseResponse\<close> comes to: the pair it returns; the outcome of
  \<^verbatim>\<open>startScan\<close> in the goroutine, when one was started; and the channel once the decoder
  has ended.
\<close>

record Decoding =
  returned :: "error + ChatResponse list"
  goroutine :: "(error + ChatResponse list) option"
  channel :: "Channel option"

text \<open>
  \<^verbatim>\<open>parseResponse\<close> of ask.go (lines 381-401) on the lines of the body. The first line is
  read and only tested; the scan starts at the second.
\<close>

definition parseResponse :: "stdlib \<Rightarrow> Channel option \<Rightarrow> string list \<Rightarrow> Decoding" where
  "parseResponse L streamChannel lines =
     (if lines \<noteq> [] \<and> Contains (hd lines) detailMarker
      then \<lparr>returned = Inl (Errorf (FindString_detail (hd lines))), goroutine = None,
             channel = streamChannel\<rparr>
      else if streamChannel \<noteq> None
      then \<lparr>returned = Inr [], goroutine = Some (fst (startScan L streamChannel (tl lines))),
             channel = snd (startScan L streamChannel (tl lines))\<rparr>
      else \<lparr>returned = fst (startScan L None (tl lines)), goroutine = None,
             channel = snd (startScan L None (tl lines))\<rparr>)"

text \<open>
  The other revision of the two functions (src/unnamed/part_000, lines 505-613): the literal
  looked for is \<^verbatim>\<open>{"detail":\<close>, and the channel is closed only when it is not \<^verbatim>\<open>nil\<close>.
\<close>

definition startScan_part000 ::
  "stdlib \<Rightarrow> Channel option \<Rightarrow> string list \<Rightarrow> (error + ChatResponse list) \<times> Channel option" where
  "startScan_part000 L streamChannel lines =
     (case scanLoop detailOpen L streamChannel [] lines of
        (Inl e, ch) \<Rightarrow> (Inl e, ch)
      | (Inr messages, ch) \<Rightarrow>
          if ch \<noteq> None then
            (case close ch of
               Inl p \<Rightarrow> (Inl p, ch)
             | Inr ch' \<Rightarrow> (Inr messages, ch'))
          else (Inr messages, ch))"

definition parseResponse_part000 :: "stdlib \<Rightarrow> Channel option \<Rightarrow> string list \<Rightarrow> Decoding" where
  "parseResponse_part000 L streamChannel lines =
     (if lines \<noteq> [] \<and> Contains (hd lines) detailOpen
      then \<lparr>returned = Inl (Errorf (FindString_detail (hd lines))), goroutine = None,
             channel = streamChannel\<rparr>
      else if streamChannel \<noteq> None
      then \<lparr>returned = Inr [], goroutine = Some (fst (startScan_part000 L streamChannel (tl lines))),
             channel = snd (startScan_part000 L streamChannel (tl lines))\<rparr>
      else \<lparr>returned = fst (startScan_part000 L None (tl lines)), goroutine = None,
             channel = snd (startScan_part000 L None (tl lines))\<rparr>)"

subsection \<open>A decoder for concrete frames\<close>

text \<open>
  An executable reading of JSON texts made of objects, arrays, strings with the
  one-letter escapes, \<^verbatim>\<open>true\<close>, \<^verbatim>\<open>false\<close> and \<^verbatim>\<open>null\<close>, which is where the concrete
  streams below live; on such a text it answers what \<^verbatim>\<open>json.Unmarshal\<close> stores, and
  \<open>None\<close> where \<^verbatim>\<open>json.Unmarshal\<close> reports a syntax error. Numbers and \<^verbatim>\<open>\u\<close> escapes
  are outside of it (it answers \<open>None\<close>). The first argument bounds the number of nested
  calls; the length of the text is enough. The entries of an object are kept in the order
  of their keys, a later member replacing an earlier one of the same name.
\<close>

fun putMember :: "string \<Rightarrow> json \<Rightarrow> (string \<times> json) list \<Rightarrow> (string \<times> json) list" where
  "putMember k v [] = [(k, v)]"
| "putMember k v ((k', v') # kvs) =
     (if k = k' then (k, v) # kvs
      else if k < k' then (k, v) # (k', v') # kvs
      else (k', v') # putMember k v kvs)"

definition isJSONSpace :: "char \<Rightarrow> bool" where
  "isJSONSpace c = (c = CHR '' '' \<or> c = CHR 0x09 \<or> c = CHR 0x0A \<or> c = CHR 0x0D)"

definition skipWS :: "string \<Rightarrow> string" where
  "skipWS s = dropWhile isJSONSpace s"

definition unescape :: "char \<Rightarrow> char option" where
  \<open>unescape e =
     (if e = CHR 0x22 then Some (CHR 0x22)
      else if e = CHR 0x5C then Some (CHR 0x5C)
      else if e = CHR ''/'' then Some (CHR ''/'')
      else if e = CHR ''b'' then Some (CHR 0x08)
      else if e = CHR ''f'' then Some (CHR 0x0C)
      else if e = CHR ''n'' then Some (CHR 0x0A)
      else if e = CHR ''r'' then Some (CHR 0x0D)
      else if e = CHR ''t'' then Some (CHR 0x09)
      else None)\<close>

fun parseString :: "string \<Rightarrow> string \<Rightarrow> (string \<times> string) option" where
  "parseString acc [] = None"
| "parseString acc [c] = (if c = CHR 0x22 then Some (rev acc, []) else None)"
| "parseString acc (c # e # s) =
     (if c = CHR 0x22 then Some (rev acc, e # s)
      else if c = CHR 0x5C then
        (case unescape e of None \<Rightarrow> None | Some u \<Rightarrow> parseString (u # acc) s)
      else if (of_char c :: nat) < 32 then None
      else parseString (c # acc) (e # s))"

fun parseValue :: "nat \<Rightarrow> string \<Rightarrow> (json \<times> string) option"
  and parseElements :: "nat \<Rightarrow> json list \<Rightarrow> string \<Rightarrow> (json list \<times> string) option"
  and parseMembers :: "nat \<Rightarrow> (string \<times> json) list \<Rightarrow> string \<Rightarrow> ((string \<times> json) list \<times> string) option"
where
  "parseValue 0 s = None"
| "parseValue (Suc n) s =
     (case skipWS s of
        [] \<Rightarrow> None
      | c # r \<Rightarrow>
          if c = CHR ''{'' then
            (case skipWS r of
               [] \<Rightarrow> None
             | d # r' \<Rightarrow>
                 if d = CHR ''}'' then Some (JObject [], r')
                 else map_option (\<lambda>(kvs, t). (JObject kvs, t)) (parseMembers n [] r))
          else if c = CHR ''['' then
            (case skipWS r of
               [] \<Rightarrow> None
             | d # r' \<Rightarrow>
                 if d = CHR '']'' then Some (JArray [], r')
                 else map_option (\<lambda>(xs, t). (JArray xs, t)) (parseElements n [] r))
          else if c = CHR 0x22 then map_option (\<lambda>(x, t). (JString x, t)) (parseString [] r)
          else if prefix ''true'' (c # r) then Some (JBool True, drop 4 (c # r))
          else if prefix ''false'' (c # r) then Some (JBool False, drop 5 (c # r))
          else if prefix ''null'' (c # r) then Some (JNull, drop 4 (c # r))
          else None)"
| "parseElements 0 acc s = None"
| "parseElements (Suc n) acc s =
     (case parseValue n s of
        None \<Rightarrow> None
      | Some (v, r) \<Rightarrow>
          (case skipWS r of
             [] \<Rightarrow> None
           | d # r' \<Rightarrow>
               if d = CHR '','' then parseElements n (acc @ [v]) r'
               else if d = CHR '']'' then Some (acc @ [v], r')
               else None))"
| "parseMembers 0 acc s = None"
| "parseMembers (Suc n) acc s =
     (case skipWS s of
        [] \<Rightarrow> None
      | q # r \<Rightarrow>
          if q \<noteq> CHR 0x22 then None
          else
            (case parseString [] r of
               None \<Rightarrow> None
             | Some (k, r1) \<Rightarrow>
                 (case skipWS r1 of
                    [] \<Rightarrow> None
                  | col # r2 \<Rightarrow>
                      if col \<noteq> CHR '':'' then None
                      else
                        (case parseValue n r2 of
                           None \<Rightarrow> None
                         | Some (v, r3) \<Rightarrow>
                             (case skipWS r3 of
                                [] \<Rightarrow> None
                              | d # r4 \<Rightarrow>
                                  if d = CHR '','' then parseMembers n (putMember k v acc) r4
                                  else if d = CHR ''}'' then Some (putMember k v acc, r4)
                                  else None)))))"

definition parseJSON :: "string \<Rightarrow> json option" where
  "parseJSON s =
     (case parseValue (Suc (length s)) s of
        None \<Rightarrow> None
      | Some (v, r) \<Rightarrow> if skipWS r = [] then Some v else None)"

section \<open>Credential cache (auth.go)\<close>

record Auth =
  email :: string
  password :: string
  authState :: string
  apiKey :: string
  accessToken :: string
  expires :: time
  enableCache :: bool
  clientStarted :: bool
  sessionName :: string

record authCache =
  AccessToken :: string
  Expires :: time

text \<open>
  The file \<^verbatim>\<open>gpt-cache.json\<close> by what reading it gives: there is no file; it cannot be
  opened; the decoder ends with an error (having stored the entries of its argument before);
  or it decodes to a mapping. Whether \<^verbatim>\<open>os.Create\<close> fails is the second field of the file
  system. A write to the created file is taken to succeed.
\<close>

datatype cache_file =
    NoFile
  | Unreadable
  | Undecodable "string \<rightharpoonup> authCache"
  | Decodable "string \<rightharpoonup> authCache"

record FileSystem =
  gpt_cache_json :: cache_file
  create_fails :: bool

text \<open>
  \<^verbatim>\<open>cacheAccessToken\<close>. \<^verbatim>\<open>os.Create\<close> truncates the file before the encoder runs. The
  encoder builds the whole text before it writes any of it, so when the expiry cannot be
  encoded it returns its error and the file stays empty: the next decoder ends at once with
  an error. Otherwise the file is given by what reading it gives. The encoder writes the
  session name and the token as \<open>json_string\<close> has them and the expiry as \<open>json_time\<close> has
  it; the entries read before were stored by a decoder and are written back as they were
  read. The encoder writes the entries in the order of the keys it was given; when the
  session name as written is the key of another entry, the decoder that reads the file keeps
  the one of the two that was written later.
\<close>

definition cacheAccessToken :: "stdlib \<Rightarrow> Auth \<Rightarrow> FileSystem \<Rightarrow> error option \<times> FileSystem" where
  "cacheAccessToken L a fs =
     (let previousData =
            (case gpt_cache_json fs of
               NoFile \<Rightarrow> Map.empty
             | Unreadable \<Rightarrow> Map.empty
             | Undecodable partial \<Rightarrow> partial
             | Decodable data \<Rightarrow> data);
          written_name = json_string L (sessionName a)
      in if create_fails fs then (Some CreateError, fs)
         else
           (case json_time L (expires a) of
              None \<Rightarrow> (Some EncodeError, fs\<lparr>gpt_cache_json := Undecodable Map.empty\<rparr>)
            | Some written_expires \<Rightarrow>
                (None,
                 fs\<lparr>gpt_cache_json :=
                      Decodable
                        (if written_name \<noteq> sessionName a \<and> previousData written_name \<noteq> None
                            \<and> sessionName a < written_name
                         then previousData
                         else previousData(written_name \<mapsto>
                                \<lparr>AccessToken = json_string L (accessToken a),
                                 Expires = written_expires\<rparr>))\<rparr>)))"

definition loadCachedAccessToken :: "Auth \<Rightarrow> FileSystem \<Rightarrow> Auth" where
  "loadCachedAccessToken a fs =
     (case gpt_cache_json fs of
        NoFile \<Rightarrow> a
      | Unreadable \<Rightarrow> a
      | Undecodable partial \<Rightarrow> a
      | Decodable data \<Rightarrow>
          (case data (sessionName a) of
             None \<Rightarrow> a
           | Some cache \<Rightarrow> a\<lparr>accessToken := AccessToken cache, expires := Expires cache\<rparr>))"

section \<open>Login handshake (auth.go)\<close>

text \<open>
  An HTTP response by what the handshake reads of it: the status code and status text, the
  \<^verbatim>\<open>Location\<close> header, the cookies it sets, and what its body decodes to as the answer of
  the endpoint (\<^verbatim>\<open>state\<close>, \<^verbatim>\<open>url\<close>) and as an \<^verbatim>\<open>authResp\<close>, \<open>None\<close> when the
  decoder returns an error.
\<close>

record authResp =
  resp_AccessToken :: string
  resp_Expires :: time
  Detail :: string

record Response =
  StatusCode :: nat
  Status :: string
  Location :: string
  Cookies :: "string list"
  endpointJSON :: "(string \<times> string) option"
  tokenJSON :: "authResp option"

record Request =
  Method :: string
  URL :: string
  ContentType :: string
  Body :: string
  ReqCookies :: "string list"

text \<open>
  The network: the answers that the requests of a run will get, in order (\<open>None\<close> is a
  request that fails with an error, as every request does once the script is used up),
  and the requests sent so far.
\<close>

record Network =
  script :: "Response option list"
  log :: "Request list"

definition Do :: "Network \<Rightarrow> Request \<Rightarrow> Response option \<times> Network" where
  "Do w req =
     (case script w of
        [] \<Rightarrow> (None, w\<lparr>log := log w @ [req]\<rparr>)
      | r # rs \<Rightarrow> (r, w\<lparr>script := rs, log := log w @ [req]\<rparr>))"

text \<open>\<^verbatim>\<open>url.QueryEscape\<close>.\<close>

definition unreserved :: "char \<Rightarrow> bool" where
  "unreserved c =
     (let n = (of_char c :: nat)
      in (65 \<le> n \<and> n \<le> 90) \<or> (97 \<le> n \<and> n \<le> 122) \<or> (48 \<le> n \<and> n \<le> 57)
         \<or> c = CHR ''-'' \<or> c = CHR ''_'' \<or> c = CHR ''.'' \<or> c = CHR ''~'')"

definition upperhex :: string where
  "upperhex = ''0123456789ABCDEF''"

definition escapeByte :: "char \<Rightarrow> string" where
  "escapeByte c =
     (if unreserved c then [c]
      else if c = CHR '' '' then ''+''
      else [CHR ''%'', upperhex ! ((of_char c :: nat) div 16), upperhex ! ((of_char c :: nat) mod 16)])"

definition QueryEscape :: "string \<Rightarrow> string" where
  "QueryEscape s = concat (map escapeByte s)"

definition endpointURL :: string where
  "endpointURL = ''https://chat-api.zhile.io/auth/endpoint''"

definition tokenURL :: string where
  "tokenURL = ''https://chat-api.zhile.io/auth/token''"

definition url_prefix :: string where
  "url_prefix = ''https://auth0.openai.com''"

definition formType :: string where
  "formType = ''application/x-www-form-urlencoded''"

definition GET :: "string \<Rightarrow> string list \<Rightarrow> Request" where
  "GET u cs = \<lparr>Method = ''GET'', URL = u, ContentType = [], Body = [], ReqCookies = cs\<rparr>"

definition POST :: "string \<Rightarrow> string \<Rightarrow> string list \<Rightarrow> Request" where
  "POST u data cs = \<lparr>Method = ''POST'', URL = u, ContentType = formType, Body = data, ReqCookies = cs\<rparr>"

definition stepOne :: "Auth \<Rightarrow> Network \<Rightarrow> (error + string) \<times> Auth \<times> Network" where
  "stepOne a w =
     (case Do w (GET endpointURL []) of
        (None, w1) \<Rightarrow> (Inl TransportError, a, w1)
      | (Some resp, w1) \<Rightarrow>
          if StatusCode resp \<noteq> 200 then (Inl (Errorf (''bad status: '' @ Status resp)), a, w1)
          else
            (case endpointJSON resp of
               None \<Rightarrow> (Inl DecodeError, a, w1)
             | Some (state, url) \<Rightarrow> (Inr url, a\<lparr>authState := state\<rparr>, w1)))"

definition invalidCredentials :: error where
  "invalidCredentials =
     ChatError ''email and password combination is incorrect or you have not verified your email address yet'' 400"

text \<open>The test of the status after each of the two form posts (lines 221-226 and 245-250).\<close>

definition checkPostStatus :: "string \<Rightarrow> Response \<Rightarrow> error option" where
  "checkPostStatus next_url resp =
     (if StatusCode resp \<noteq> 302 then
        (if StatusCode resp = 400 then Some invalidCredentials
         else Some (ChatError (''bad status for url: '' @ next_url) (StatusCode resp)))
      else None)"

text \<open>
  \<^verbatim>\<open>strings.Split(strings.Split(next_url, "state=")[1], "&")[0]\<close>: the first index
  panics when \<^verbatim>\<open>state=\<close> does not occur in the address.
\<close>

definition currentState :: "string \<Rightarrow> error + string" where
  "currentState next_url =
     (case index (Split next_url ''state='') 1 of
        Inl p \<Rightarrow> Inl p
      | Inr rest \<Rightarrow> index (Split rest ''&'') 0)"

definition usernameForm :: "string \<Rightarrow> string \<Rightarrow> string" where
  "usernameForm current_state e =
     ''state='' @ current_state @ ''&username='' @ QueryEscape e @
     ''&js-available=true&webauthn-available=true&is-brave=false&webauthn-platform-available=false&action=default''"

definition passwordForm :: "string \<Rightarrow> string \<Rightarrow> string \<Rightarrow> string" where
  "passwordForm current_state e p =
     ''state='' @ current_state @ ''&username='' @ QueryEscape e @ ''&password='' @ QueryEscape p @
     ''&action=default''"

text \<open>
  \<^verbatim>\<open>stepTwo\<close> in four exchanges. The cookies of the first response are read before its
  error is tested, so a first request that fails is a nil dereference. The error of every
  \<^verbatim>\<open>http.NewRequest\<close> is dropped: when the address is refused the request is \<^verbatim>\<open>nil\<close>, and
  what follows (\<^verbatim>\<open>httpx.Do(req)\<close>, \<^verbatim>\<open>req.Header.Set\<close>, \<^verbatim>\<open>req.AddCookie\<close>) dereferences
  it before anything is sent.
\<close>

definition stepTwo_final :: "stdlib \<Rightarrow> Network \<Rightarrow> string list \<Rightarrow> string \<Rightarrow> (error + string) \<times> Network" where
  "stepTwo_final L w ref_cookies next_url =
     (if \<not> http_NewRequest L next_url then (Inl (Panic ''nil pointer dereference''), w)
      else
        (case Do w (GET next_url ref_cookies) of
           (None, w') \<Rightarrow> (Inl TransportError, w')
         | (Some resp, w') \<Rightarrow>
             if StatusCode resp \<noteq> 302
             then (Inl (ChatError (''bad status for url: '' @ next_url) (StatusCode resp)), w')
             else (Inr (Location resp), w')))"

definition stepTwo_password ::
  "stdlib \<Rightarrow> Network \<Rightarrow> string list \<Rightarrow> string \<Rightarrow> string \<Rightarrow> string \<Rightarrow> string
     \<Rightarrow> (error + string) \<times> Network" where
  "stepTwo_password L w ref_cookies current_state next_url e p =
     (if \<not> http_NewRequest L next_url then (Inl (Panic ''nil pointer dereference''), w)
      else
        (case Do w (POST next_url (passwordForm current_state e p) ref_cookies) of
           (None, w') \<Rightarrow> (Inl TransportError, w')
         | (Some resp, w') \<Rightarrow>
             (case checkPostStatus next_url resp of
                Some err \<Rightarrow> (Inl err, w')
              | None \<Rightarrow> stepTwo_final L w' ref_cookies (url_prefix @ Location resp))))"

definition stepTwo_username ::
  "stdlib \<Rightarrow> Network \<Rightarrow> string list \<Rightarrow> string \<Rightarrow> string \<Rightarrow> string \<Rightarrow> string
     \<Rightarrow> (error + string) \<times> Network" where
  "stepTwo_username L w ref_cookies current_state next_url e p =
     (if \<not> http_NewRequest L next_url then (Inl (Panic ''nil pointer dereference''), w)
      else
        (case Do w (POST next_url (usernameForm current_state e) ref_cookies) of
           (None, w') \<Rightarrow> (Inl TransportError, w')
         | (Some resp, w') \<Rightarrow>
             (case checkPostStatus next_url resp of
                Some err \<Rightarrow> (Inl err, w')
              | None \<Rightarrow>
                  stepTwo_password L w' ref_cookies current_state (url_prefix @ Location resp) e p)))"

definition stepTwo ::
  "stdlib \<Rightarrow> Network \<Rightarrow> string \<Rightarrow> string \<Rightarrow> string \<Rightarrow> (error + string) \<times> Network" where
  "stepTwo L w auth_url e p =
     (if \<not> http_NewRequest L auth_url then (Inl (Panic ''nil pointer dereference''), w)
      else
        (case Do w (GET auth_url []) of
           (None, w') \<Rightarrow> (Inl (Panic ''nil pointer dereference''), w')
         | (Some resp, w') \<Rightarrow>
             if StatusCode resp \<noteq> 302 then (Inl (Errorf (''bad status for url: '' @ auth_url)), w')
             else
               (case currentState (url_prefix @ Location resp) of
                  Inl pan \<Rightarrow> (Inl pan, w')
                | Inr current_state \<Rightarrow>
                    stepTwo_username L w' (Cookies resp) current_state
                      (url_prefix @ Location resp) e p)))"

text \<open>
  \<^verbatim>\<open>stepThree\<close>. Its address is fixed and well-formed, as is that of \<^verbatim>\<open>stepOne\<close>.
\<close>

definition stepThree :: "Auth \<Rightarrow> Network \<Rightarrow> string \<Rightarrow> (error + authResp) \<times> Network" where
  "stepThree a w code_url =
     (case Do w (POST tokenURL (''state='' @ authState a @ ''&callbackUrl='' @ QueryEscape code_url) []) of
        (None, w') \<Rightarrow> (Inl TransportError, w')
      | (Some resp, w') \<Rightarrow>
          (case tokenJSON resp of
             None \<Rightarrow> (Inl DecodeError, w')
           | Some result \<Rightarrow> (Inr result, w')))"

text \<open>\<^verbatim>\<open>GetAccessToken\<close>; the last argument is the instant \<^verbatim>\<open>time.Now()\<close> answers.\<close>

definition GetAccessToken ::
  "stdlib \<Rightarrow> Auth \<Rightarrow> Network \<Rightarrow> FileSystem \<Rightarrow> time
     \<Rightarrow> (error + string) \<times> Auth \<times> Network \<times> FileSystem" where
  "GetAccessToken L a0 w fs now =
     (let a = (if enableCache a0 then loadCachedAccessToken a0 fs else a0)
      in if accessToken a \<noteq> [] \<and> expires a > now then (Inr (accessToken a), a, w, fs)
         else if email a = [] \<or> password a = []
         then (Inl (Errorf ''email and password must be set to authenticate with OpenAI''), a, w, fs)
         else
           (case stepOne a w of
              (Inl err, a1, w1) \<Rightarrow> (Inl err, a1, w1, fs)
            | (Inr callback_url, a1, w1) \<Rightarrow>
                (case stepTwo L w1 callback_url (email a1) (password a1) of
                   (Inl err, w2) \<Rightarrow> (Inl err, a1, w2, fs)
                 | (Inr code_url, w2) \<Rightarrow>
                     (case stepThree a1 w2 code_url of
                        (Inl err, w3) \<Rightarrow> (Inl err, a1, w3, fs)
                      | (Inr resp, w3) \<Rightarrow>
                          (let a2 = a1\<lparr>accessToken := resp_AccessToken resp,
                                        expires := resp_Expires resp\<rparr>
                           in (Inr (resp_AccessToken resp), a2, w3,
                               if enableCache a2 then snd (cacheAccessToken L a2 fs) else fs))))))"

section \<open>Client (client.go)\<close>

definition ApiKeyMode :: nat where "ApiKeyMode = 0"
definition AccessTokenMode :: nat where "AccessTokenMode = 1"

text \<open>
  The fields of \<^verbatim>\<open>Client\<close> and \<^verbatim>\<open>Config\<close> that the functions below read or write. The
  field \<^verbatim>\<open>initMessage\<close> of the client is \<open>client_initMessage\<close> here.
\<close>

record Client =
  auth :: Auth
  conversations :: "string \<rightharpoonup> Conversation"
  engine :: string
  client_initMessage :: string
  baseUrl :: string
  proxy :: "string option"
  authmode :: nat
  ispaid :: bool

record Config =
  cfg_ApiKey :: string
  cfg_Email :: string
  cfg_Password :: string
  cfg_AccessToken :: string
  cfg_Engine :: string
  cfg_InitMessage :: string
  cfg_BaseURL :: string
  cfg_IsPaid :: bool
  cfg_DisableCache :: bool

text \<open>\<^verbatim>\<open>NewClient(config, sessionName...)\<close>; the second argument is the optional session name.\<close>

definition NewClient :: "Config \<Rightarrow> string option \<Rightarrow> Client" where
  "NewClient config session =
     \<lparr>auth = \<lparr>email = cfg_Email config, password = cfg_Password config, authState = [],
               apiKey = cfg_ApiKey config, accessToken = cfg_AccessToken config, expires = 0,
               enableCache = (\<not> cfg_DisableCache config), clientStarted = False,
               sessionName = (case session of Some n \<Rightarrow> n | None \<Rightarrow> ''default'')\<rparr>,
      conversations = Map.empty,
      engine = (if cfg_Engine config = [] then ''gpt-3.5-turbo'' else cfg_Engine config),
      client_initMessage = cfg_InitMessage config,
      baseUrl = (if cfg_BaseURL config = [] then ''https://bypass.churchless.tech/api/conversation''
                 else cfg_BaseURL config),
      proxy = None,
      authmode = 0,
      ispaid = cfg_IsPaid config\<rparr>"

definition checkCredentials :: "Client \<Rightarrow> error option" where
  "checkCredentials c =
     (if apiKey (auth c) = [] \<and> (email (auth c) = [] \<or> password (auth c) = [])
          \<and> accessToken (auth c) = []
      then Some (Errorf ''no credentials provided, please set an API key, email and password, or access token'')
      else if (email (auth c) \<noteq> [] \<and> password (auth c) = [])
              \<or> (email (auth c) = [] \<and> password (auth c) \<noteq> [])
      then Some (Errorf ''email and password must be set together'')
      else None)"

definition pingProxy :: "stdlib \<Rightarrow> Client \<Rightarrow> Network \<Rightarrow> error option \<times> Network" where
  "pingProxy L c w =
     (case proxy c of
        None \<Rightarrow> (Some (Errorf ''no proxy server set''), w)
      | Some u \<Rightarrow>
          if \<not> http_NewRequest L u then (Some URLError, w)
          else
            (case Do w (GET u []) of
               (None, w') \<Rightarrow> (Some TransportError, w')
             | (Some resp, w') \<Rightarrow> (None, w')))"

definition freeEngine :: "Client \<Rightarrow> Client" where
  "freeEngine c = (if \<not> ispaid c then c\<lparr>engine := ''text-davinci-002-render-sha''\<rparr> else c)"

definition started :: "Client \<Rightarrow> Client" where
  "started c = c\<lparr>auth := (auth c)\<lparr>clientStarted := True\<rparr>\<rparr>"

text \<open>
  \<^verbatim>\<open>Start\<close>. The branches after the check of the credentials are in the order of the
  source: the API key, then the access token, then email and password.
\<close>

definition Start_branches ::
  "stdlib \<Rightarrow> Client \<Rightarrow> Network \<Rightarrow> FileSystem \<Rightarrow> time
     \<Rightarrow> error option \<times> Client \<times> Network \<times> FileSystem" where
  "Start_branches L c w fs now =
     (if apiKey (auth c) \<noteq> [] then (None, started (c\<lparr>authmode := ApiKeyMode\<rparr>), w, fs)
      else if accessToken (auth c) \<noteq> [] then
        (case (if enableCache (auth c) then cacheAccessToken L (auth c) fs else (None, fs)) of
           (Some err, fs') \<Rightarrow> (Some err, c\<lparr>authmode := AccessTokenMode\<rparr>, w, fs')
         | (None, fs') \<Rightarrow> (None, started (freeEngine (c\<lparr>authmode := AccessTokenMode\<rparr>)), w, fs'))
      else if email (auth c) \<noteq> [] \<and> password (auth c) \<noteq> [] then
        (case GetAccessToken L (auth c) w fs now of
           (Inl err, a', w', fs') \<Rightarrow> (Some err, c\<lparr>auth := a'\<rparr>, w', fs')
         | (Inr token, a', w', fs') \<Rightarrow>
             (None,
              started (freeEngine (c\<lparr>auth := a'\<lparr>accessToken := token\<rparr>, authmode := AccessTokenMode\<rparr>)),
              w', fs'))
      else (None, started c, w, fs))"

definition Start ::
  "stdlib \<Rightarrow> Client \<Rightarrow> Network \<Rightarrow> FileSystem \<Rightarrow> time
     \<Rightarrow> error option \<times> Client \<times> Network \<times> FileSystem" where
  "Start L c0 w fs now =
     (let c = c0\<lparr>auth := loadCachedAccessToken (auth c0) fs\<rparr>
      in case checkCredentials c of
           Some err \<Rightarrow> (Some err, c, w, fs)
         | None \<Rightarrow>
             if proxy c \<noteq> None then
               (case pingProxy L c w of
                  (Some err, w') \<Rightarrow> (Some err, c, w', fs)
                | (None, w') \<Rightarrow> Start_branches L c w' fs now)
             else Start_branches L c w fs now)"

section \<open>Concrete inputs and readings used in the properties\<close>

text \<open>The entry of a session in the cache file, when the file decodes.\<close>

definition entry :: "FileSystem \<Rightarrow> string \<Rightarrow> authCache option" where
  "entry fs s = (case gpt_cache_json fs of Decodable data \<Rightarrow> data s | _ \<Rightarrow> None)"


text \<open>The response that \<^verbatim>\<open>startScan\<close> builds from the three strings of a frame.\<close>

definition response :: "stdlib \<Rightarrow> string \<Rightarrow> string \<Rightarrow> string \<Rightarrow> ChatResponse" where
  "response L message conversationID parentID =
     \<lparr>Message = strings_TrimSpace L message, ConversationID = conversationID, ParentID = parentID,
      Model = [], done' = False\<rparr>"

text \<open>
  The frames of a stream, read off its lines without a channel or a list of messages. A data
  line is a line with the prefix \<^verbatim>\<open>data: \<close>. The scan ends at the first data line that holds
  the detail literal, or is the sentinel, or whose payload makes the unchecked type assertions
  panic. The frames are the texts, with their two identifiers, that the payloads of the data
  lines before that line decode to, in the order of the lines.
\<close>

definition isData :: "string \<Rightarrow> bool" where
  "isData line = (HasPrefix line ''data: '')"

definition endsScan :: "string \<Rightarrow> stdlib \<Rightarrow> string \<Rightarrow> bool" where
  "endsScan marker L line =
     (isData line \<and>
      (Contains line marker \<or> TrimPrefix line ''data: '' = ''[DONE]'' \<or>
       (case decodeData L (TrimPrefix line ''data: '') of Crash p \<Rightarrow> True | _ \<Rightarrow> False)))"

definition frameOf :: "stdlib \<Rightarrow> string \<Rightarrow> (string \<times> string \<times> string) option" where
  "frameOf L line =
     (if isData line then
        (case decodeData L (TrimPrefix line ''data: '') of
           Text message conversationID parentID \<Rightarrow> Some (message, conversationID, parentID)
         | _ \<Rightarrow> None)
      else None)"

definition textFrames :: "string \<Rightarrow> stdlib \<Rightarrow> string list \<Rightarrow> (string \<times> string \<times> string) list" where
  "textFrames marker L lines =
     List.map_filter (frameOf L) (takeWhile (\<lambda>line. \<not> endsScan marker L line) lines)"

text \<open>The frames that live mode delivers: those whose text, as decoded, is not empty.\<close>

definition delivered :: "stdlib \<Rightarrow> (string \<times> string \<times> string) list \<Rightarrow> ChatResponse list" where
  "delivered L frames =
     map (\<lambda>(message, conversationID, parentID). response L message conversationID parentID)
       (filter (\<lambda>(message, conversationID, parentID). message \<noteq> []) frames)"

subsection \<open>The library of the concrete runs\<close>

text \<open>
  The runs on concrete inputs below take the following functions for the library. Each
  agrees with the Go library on what those runs give it:
  \<^item> \<open>parseJSON\<close>, on JSON texts without numbers and \<^verbatim>\<open>\u\<close> escapes (it never stores a
    number, so that \<open>fmt_float\<close> is never called);
  \<^item> \<open>TrimSpaceASCII\<close>, which cuts tab, line feed, vertical tab, form feed, carriage return and
    space from both ends, on ASCII texts (\<^verbatim>\<open>strings.TrimSpace\<close> cuts the Unicode spaces
    beyond ASCII as well);
  \<^item> \<open>plainAddress\<close>, which is true of \<^verbatim>\<open>https://\<close> followed by letters, digits and the
    characters \<^verbatim>\<open>-._~/?=&\<close> only, on such addresses, which \<^verbatim>\<open>http.NewRequest\<close> accepts, and
    on addresses with a blank in the host, which it refuses;
  \<^item> \<open>replaceBytes\<close>, which replaces each of the bytes F8 to FF, that occur in no UTF-8
    encoding, by the encoding EF BF BD of U+FFFD, on texts of ASCII bytes and these bytes;
  \<^item> \<open>writtenTime\<close>, on the instants of the first 9000 years after the zero value, given in
    nanoseconds, which have a year between 0 and 9999 in every time zone.
\<close>

definition isSpace :: "char \<Rightarrow> bool" where
  "isSpace c = (c = CHR 0x09 \<or> c = CHR 0x0A \<or> c = CHR 0x0B \<or> c = CHR 0x0C \<or> c = CHR 0x0D \<or> c = CHR '' '')"

definition TrimSpaceASCII :: "string \<Rightarrow> string" where
  "TrimSpaceASCII s = rev (dropWhile isSpace (rev (dropWhile isSpace s)))"

definition plainChar :: "char \<Rightarrow> bool" where
  "plainChar c =
     (let n = (of_char c :: nat)
      in (65 \<le> n \<and> n \<le> 90) \<or> (97 \<le> n \<and> n \<le> 122) \<or> (48 \<le> n \<and> n \<le> 57)
         \<or> c = CHR ''-'' \<or> c = CHR ''.'' \<or> c = CHR ''_'' \<or> c = CHR ''~''
         \<or> c = CHR ''/'' \<or> c = CHR ''?'' \<or> c = CHR ''='' \<or> c = CHR ''&'')"

definition plainAddress :: "string \<Rightarrow> bool" where
  "plainAddress u = (prefix ''https://'' u \<and> list_all plainChar (drop 8 u))"

definition replaceBytes :: "string \<Rightarrow> string" where
  "replaceBytes s =
     concat (map (\<lambda>c. if 248 \<le> (of_char c :: nat) then [CHR 0xEF, CHR 0xBF, CHR 0xBD] else [c]) s)"

definition writtenTime :: "time \<Rightarrow> time option" where
  "writtenTime t = (if 0 \<le> t \<and> t < 9000 * 365 * 86400 * 1000000000 then Some t else None)"

definition goLib :: stdlib where
  "goLib = \<lparr>json_Unmarshal = parseJSON, fmt_float = (\<lambda>literal. literal),
            strings_TrimSpace = TrimSpaceASCII, http_NewRequest = plainAddress,
            json_string = replaceBytes, json_time = writtenTime\<rparr>"

subsection \<open>Streams\<close>

text \<open>The synthetic stream of the specification, line by line.\<close>

definition goodLine :: string where
  \<open>goodLine = ''data: {"message":{"id":"m1","content":{"content_type":"text","parts":["Hi"]}},"conversation_id":"c1"}''\<close>

definition exampleStream :: "string list" where
  \<open>exampleStream = [''event: x'', '''', ''data: {malformed}'', '''', goodLine, '''', ''data: [DONE]'']\<close>

text \<open>Detail frames: as a first line, as a payload, and the literal that ask.go looks for.\<close>

definition rateLimited :: string where
  \<open>rateLimited = ''{"detail":"rate limited"}''\<close>

definition rateLimitedData :: string where
  \<open>rateLimitedData = ''data: {"detail":"rate limited"}''\<close>

definition markerData :: string where
  \<open>markerData = ''data: {"detail":}''\<close>

text \<open>Frames whose first part is a single space, and the empty string.\<close>

definition blankLine :: string where
  \<open>blankLine = ''data: {"message":{"id":"m1","content":{"content_type":"text","parts":[" "]}},"conversation_id":"c1"}''\<close>

definition emptyLine :: string where
  \<open>emptyLine = ''data: {"message":{"id":"m1","content":{"content_type":"text","parts":[""]}},"conversation_id":"c1"}''\<close>

subsection \<open>Cache files, logins and configurations\<close>

text \<open>What \<^verbatim>\<open>cacheAccessToken\<close> takes as \<^verbatim>\<open>previousData\<close> from the file.\<close>

definition previousData :: "FileSystem \<Rightarrow> string \<rightharpoonup> authCache" where
  "previousData fs =
     (case gpt_cache_json fs of
        NoFile \<Rightarrow> Map.empty
      | Unreadable \<Rightarrow> Map.empty
      | Undecodable partial \<Rightarrow> partial
      | Decodable data \<Rightarrow> data)"

text \<open>
  Session \<open>s1\<close> holding token \<open>T\<close> with expiry 5, session \<open>s1\<close> holding nothing, and a
  cache file whose only entry is that of session \<open>s2\<close>.
\<close>

definition authS1 :: Auth where
  "authS1 = \<lparr>email = [], password = [], authState = [], apiKey = [], accessToken = ''T'',
             expires = 5, enableCache = True, clientStarted = False, sessionName = ''s1''\<rparr>"

definition blankS1 :: Auth where
  "blankS1 = \<lparr>email = [], password = [], authState = [], apiKey = [], accessToken = [],
              expires = 0, enableCache = True, clientStarted = False, sessionName = ''s1''\<rparr>"

definition cacheS2 :: FileSystem where
  "cacheS2 = \<lparr>gpt_cache_json = Decodable [''s2'' \<mapsto> \<lparr>AccessToken = ''U'', Expires = 7\<rparr>],
              create_fails = False\<rparr>"

definition noCacheFile :: FileSystem where
  "noCacheFile = \<lparr>gpt_cache_json = NoFile, create_fails = False\<rparr>"

text \<open>
  A login that the servers let through: the endpoint answers state \<open>A\<close>, the redirect of
  the authorize request echoes state \<open>B\<close>, every later exchange answers 302, and the token
  endpoint answers the token \<open>fresh\<close>.
\<close>

definition ok200 :: Response where
  "ok200 = \<lparr>StatusCode = 200, Status = ''200 OK'', Location = [], Cookies = [],
            endpointJSON = None, tokenJSON = None\<rparr>"

definition found302 :: "string \<Rightarrow> Response" where
  "found302 loc = \<lparr>StatusCode = 302, Status = ''302 Found'', Location = loc, Cookies = [],
                   endpointJSON = None, tokenJSON = None\<rparr>"

definition serverError :: Response where
  "serverError = \<lparr>StatusCode = 500, Status = ''500 Internal Server Error'', Location = [], Cookies = [],
                  endpointJSON = None, tokenJSON = None\<rparr>"

definition freshToken :: authResp where
  "freshToken = \<lparr>resp_AccessToken = ''fresh'', resp_Expires = 100, Detail = []\<rparr>"

definition authorizeURL :: string where
  "authorizeURL = ''https://auth0.openai.com/authorize?client=1''"

definition identifierResponse :: Response where
  "identifierResponse = (found302 ''/u/login/identifier?state=B'')\<lparr>Cookies := [''auth0=k'']\<rparr>"

definition loginScript :: "Response option list" where
  "loginScript =
     [Some (ok200\<lparr>endpointJSON := Some (''A'', authorizeURL)\<rparr>),
      Some identifierResponse,
      Some (found302 ''/u/login/password?state=B''),
      Some (found302 ''/authorize/resume?state=B''),
      Some (found302 ''https://chat.openai.com/api/auth/callback/auth0?code=xyz''),
      Some (ok200\<lparr>tokenJSON := Some freshToken\<rparr>)]"

definition userAuth :: Auth where
  "userAuth = \<lparr>email = ''e@x.org'', password = ''pw'', authState = [], apiKey = [], accessToken = [],
               expires = 0, enableCache = False, clientStarted = False, sessionName = ''default''\<rparr>"

text \<open>A configuration with email, password and access token, and no API key.\<close>

definition cfgBoth :: Config where
  "cfgBoth = \<lparr>cfg_ApiKey = [], cfg_Email = ''e@x.org'', cfg_Password = ''pw'', cfg_AccessToken = ''t'',
              cfg_Engine = [], cfg_InitMessage = [], cfg_BaseURL = [], cfg_IsPaid = False,
              cfg_DisableCache = False\<rparr>"

text \<open>A stream with three frames: the text \<open>Hi\<close>, the empty text, and a single space.\<close>

definition mixedStream :: "string list" where
  \<open>mixedStream = [goodLine, emptyLine, ''event: x'', blankLine, ''data: [DONE]'', goodLine]\<close>

text \<open>Session \<open>s1\<close> holding a token whose first byte, FF, is part of no UTF-8 encoding.\<close>

definition authFF :: Auth where
  "authFF = \<lparr>email = [], password = [], authState = [], apiKey = [], accessToken = [CHR 0xFF, CHR ''T''],
             expires = 5, enableCache = True, clientStarted = False, sessionName = ''s1''\<rparr>"

text \<open>
  A redirect whose \<^verbatim>\<open>Location\<close> makes an address with a blank in the host, and one in which
  \<^verbatim>\<open>state=\<close> occurs first as the end of another parameter name.
\<close>

definition blankLocation :: Response where
  "blankLocation = found302 ''x y?state=B''"

definition mystateLocation :: Response where
  "mystateLocation = found302 ''/x?mystate=Q&state=R''"

section \<open>Properties\<close>

subsection \<open>Conversation store\<close>


lemma getTokenCount_addMessage [simp]: "getTokenCount (addMessage m c) = getTokenCount c"
  by (simp add: getTokenCount_def addMessage_def)

lemma InitMessage_addMessage [simp]: "InitMessage (addMessage m c) = InitMessage c"
  by (simp add: addMessage_def)

lemma LastMessage_addMessage [simp]: "LastMessage (addMessage m c) = Content m"
  by (simp add: addMessage_def)

lemma Messages_addMessage [simp]: "Messages (addMessage m c) = Messages c @ [m]"
  by (simp add: addMessage_def)

lemma InitMessage_tokenizeMessage [simp]:
  "InitMessage (tokenizeMessage order model c) = InitMessage c"
  by (simp add: tokenizeMessage_def Let_def)

lemma newConversation_simps [simp]:
  "InitMessage (newConversation init) = init"
  "LastMessage (newConversation init) = init"
  "Messages (newConversation init) = [\<lparr>Role = ''system'', Content = init\<rparr>]"
  by (simp_all add: newConversation_def initMessage_def emptyConversation_def)



lemma apply_conv_op_keeps_system:
  assumes "Messages c \<noteq> []" "Messages c ! 0 = \<lparr>Role = ''system'', Content = init\<rparr>" "InitMessage c = init"
  shows "Messages (apply_conv_op c x) \<noteq> []
         \<and> Messages (apply_conv_op c x) ! 0 = \<lparr>Role = ''system'', Content = init\<rparr>
         \<and> InitMessage (apply_conv_op c x) = init"
  using assms by (cases x) (simp_all add: nth_append tokenizeMessage_def Let_def)

lemma run_conv_ops_keeps_system:
  assumes "Messages c \<noteq> []" "Messages c ! 0 = \<lparr>Role = ''system'', Content = init\<rparr>" "InitMessage c = init"
  shows "Messages (run_conv_ops c ops) \<noteq> []
         \<and> Messages (run_conv_ops c ops) ! 0 = \<lparr>Role = ''system'', Content = init\<rparr>
         \<and> InitMessage (run_conv_ops c ops) = init"
  using assms
proof (induction ops arbitrary: c)
  case Nil
  then show ?case by (simp add: run_conv_ops_def)
next
  case (Cons x ops)
  have "run_conv_ops c (x # ops) = run_conv_ops (apply_conv_op c x) ops"
    by (simp add: run_conv_ops_def)
  with Cons.IH [of "apply_conv_op c x"] apply_conv_op_keeps_system [OF Cons.prems, of x]
  show ?case by simp
qed

text \<open>
  Claim C5. For the conversation that the client creates with any init message, and every
  finite sequence of appends of user and assistant messages and of windowing checks (for
  any model and order of the table), the history is not empty and its entry at position 0
  is the system message whose content is the \<open>InitMessage\<close> of the conversation, which is
  still the init message it was created with.
\<close>

theorem system_message_stays_first:
  "Messages (run_conv_ops (newConversation init) ops) \<noteq> []
   \<and> Messages (run_conv_ops (newConversation init) ops) ! 0 = \<lparr>Role = ''system'', Content = init\<rparr>
   \<and> InitMessage (run_conv_ops (newConversation init) ops) = init"
  by (rule run_conv_ops_keeps_system) simp_all




subsection \<open>Stream decoder\<close>

lemmas json_eval = parseJSON_def skipWS_def isJSONSpace_def unescape_def
lemmas scan_eval = HasPrefix_def TrimPrefix_def decodeData_def checkFields_def Sprintf_v_def
  TrimSpaceASCII_def isSpace_def goLib_def detailMarker_def detailOpen_def

lemma decode_malformed: "decodeData goLib ''{malformed}'' = Ignored"
  by (simp add: decodeData_def goLib_def json_eval)

lemma decode_good: "decodeData goLib (drop 6 goodLine) = Text ''Hi'' ''c1'' ''m1''"
  by (simp add: goodLine_def scan_eval json_eval)

lemma no_marker_good: "\<not> Contains goodLine detailMarker" "\<not> Contains goodLine detailOpen"
  by (simp_all add: goodLine_def detailMarker_def detailOpen_def)

lemma good_shape:
  "HasPrefix goodLine ''data: ''" "\<not> HasPrefix goodLine ''event: ''" "goodLine \<noteq> []"
  "TrimPrefix goodLine ''data: '' = drop 6 goodLine" "drop 6 goodLine \<noteq> ''[DONE]''"
  by (simp_all add: goodLine_def HasPrefix_def TrimPrefix_def)

lemma scanLoop_skip:
  "line = [] \<or> HasPrefix line ''event: '' \<or> \<not> HasPrefix line ''data: '' \<Longrightarrow>
   scanLoop marker L ch messages (line # rest) = scanLoop marker L ch messages rest"
  by auto

lemma scanLoop_done:
  "\<not> Contains ''data: [DONE]'' marker \<Longrightarrow>
   scanLoop marker L ch messages (''data: [DONE]'' # rest) = (Inr messages, ch)"
  by (simp add: HasPrefix_def TrimPrefix_def)

lemma scanLoop_ignored:
  "HasPrefix line ''data: '' \<Longrightarrow> \<not> HasPrefix line ''event: '' \<Longrightarrow> \<not> Contains line marker \<Longrightarrow>
   TrimPrefix line ''data: '' \<noteq> ''[DONE]'' \<Longrightarrow> decodeData L (TrimPrefix line ''data: '') = Ignored \<Longrightarrow>
   scanLoop marker L ch messages (line # rest) = scanLoop marker L ch messages rest"
  by (auto simp: HasPrefix_def)

lemma scanLoop_text_buffered:
  "HasPrefix line ''data: '' \<Longrightarrow> \<not> HasPrefix line ''event: '' \<Longrightarrow> \<not> Contains line marker \<Longrightarrow>
   TrimPrefix line ''data: '' \<noteq> ''[DONE]'' \<Longrightarrow>
   decodeData L (TrimPrefix line ''data: '') = Text m cid pid \<Longrightarrow>
   scanLoop marker L None messages (line # rest)
     = scanLoop marker L None (messages @ [response L m cid pid]) rest"
  by (auto simp: HasPrefix_def response_def)

lemma scanLoop_text_live:
  "HasPrefix line ''data: '' \<Longrightarrow> \<not> HasPrefix line ''event: '' \<Longrightarrow> \<not> Contains line marker \<Longrightarrow>
   TrimPrefix line ''data: '' \<noteq> ''[DONE]'' \<Longrightarrow>
   decodeData L (TrimPrefix line ''data: '') = Text m cid pid \<Longrightarrow>
   scanLoop marker L (Some c) messages (line # rest)
     = (if m \<noteq> [] then scanLoop marker L (Some (send c (response L m cid pid))) messages rest
        else scanLoop marker L (Some c) (messages @ [response L m cid pid]) rest)"
  by (auto simp: HasPrefix_def response_def)

lemma scanLoop_step_cases:
  obtains (stop) r where "scanLoop marker L ch messages (line # rest) = (r, ch)"
  | (continue) "scanLoop marker L ch messages (line # rest) = scanLoop marker L ch messages rest"
  | (kept) m cid pid where
      "decodeData L (TrimPrefix line ''data: '') = Text m cid pid"
      "ch = None \<or> m = []"
      "scanLoop marker L ch messages (line # rest)
         = scanLoop marker L ch (messages @ [response L m cid pid]) rest"
  | (sent) c m cid pid where
      "ch = Some c" "m \<noteq> []" "decodeData L (TrimPrefix line ''data: '') = Text m cid pid"
      "scanLoop marker L ch messages (line # rest)
         = scanLoop marker L (Some (send c (response L m cid pid))) messages rest"
proof (cases "line = [] \<or> HasPrefix line ''event: '' \<or> \<not> HasPrefix line ''data: ''")
  case True
  then show ?thesis using continue by auto
next
  case shape: False
  show ?thesis
  proof (cases "Contains line marker \<or> TrimPrefix line ''data: '' = ''[DONE]''")
    case True
    show ?thesis
    proof (cases "Contains line marker")
      case True
      with shape show ?thesis using stop [of "Inl (Errorf (FindString_detail line))"] by simp
    next
      case False
      with True shape show ?thesis using stop [of "Inr messages"] by simp
    qed
  next
    case False
    show ?thesis
    proof (cases "decodeData L (TrimPrefix line ''data: '')")
      case Ignored
      with shape False show ?thesis using continue by simp
    next
      case (Crash p)
      with shape False show ?thesis using stop by simp
    next
      case (Text m cid pid)
      show ?thesis
      proof (cases ch)
        case None
        with shape False Text show ?thesis using kept [of m cid pid] by (simp add: response_def)
      next
        case (Some c)
        show ?thesis
        proof (cases "m = []")
          case True
          with shape False Text Some show ?thesis using kept [of m cid pid] by (simp add: response_def)
        next
          case ne: False
          with shape False Text Some show ?thesis using sent [of c m cid pid] by (simp add: response_def)
        qed
      qed
    qed
  qed
qed

lemma scanLoop_nil_channel: "snd (scanLoop marker L None messages lines) = None"
proof (induction lines arbitrary: messages)
  case Nil
  show ?case by simp
next
  case (Cons line rest)
  show ?case
    by (cases rule: scanLoop_step_cases [of marker L None messages line rest])
       (simp_all add: Cons.IH)
qed

lemma scanLoop_channel_closed:
  "\<exists>c'. snd (scanLoop marker L (Some c) messages lines) = Some c' \<and> closed c' = closed c"
proof (induction lines arbitrary: c messages)
  case Nil
  show ?case by simp
next
  case (Cons line rest)
  show ?case
  proof (cases rule: scanLoop_step_cases [of marker L "Some c" messages line rest])
    case (stop r)
    then show ?thesis by simp
  next
    case continue
    then show ?thesis using Cons.IH by simp
  next
    case (kept m cid pid)
    then show ?thesis using Cons.IH by simp
  next
    case (sent c0 m cid pid)
    then show ?thesis using Cons.IH [of "send c (response L m cid pid)" messages]
      by (simp add: send_def)
  qed
qed

lemma decode_blank: "decodeData goLib (drop 6 blankLine) = Text '' '' ''c1'' ''m1''"
  by (simp add: blankLine_def scan_eval json_eval)

lemma decode_empty: "decodeData goLib (drop 6 emptyLine) = Text [] ''c1'' ''m1''"
  by (simp add: emptyLine_def scan_eval json_eval)

lemma no_marker_blank: "\<not> Contains blankLine detailMarker" "\<not> Contains blankLine detailOpen"
  by (simp_all add: blankLine_def detailMarker_def detailOpen_def)

lemma no_marker_empty: "\<not> Contains emptyLine detailMarker" "\<not> Contains emptyLine detailOpen"
  by (simp_all add: emptyLine_def detailMarker_def detailOpen_def)

lemma blank_shape:
  "HasPrefix blankLine ''data: ''" "\<not> HasPrefix blankLine ''event: ''" "blankLine \<noteq> []"
  "TrimPrefix blankLine ''data: '' = drop 6 blankLine" "drop 6 blankLine \<noteq> ''[DONE]''"
  by (simp_all add: blankLine_def HasPrefix_def TrimPrefix_def)

lemma empty_shape:
  "HasPrefix emptyLine ''data: ''" "\<not> HasPrefix emptyLine ''event: ''" "emptyLine \<noteq> []"
  "TrimPrefix emptyLine ''data: '' = drop 6 emptyLine" "drop 6 emptyLine \<noteq> ''[DONE]''"
  by (simp_all add: emptyLine_def HasPrefix_def TrimPrefix_def)

lemma no_marker_fixed:
  "\<not> Contains ''event: x'' detailMarker" "\<not> Contains ''event: x'' detailOpen"
  "\<not> Contains ''data: [DONE]'' detailMarker" "\<not> Contains ''data: [DONE]'' detailOpen"
  "\<not> Contains ''data: {malformed}'' detailMarker" "\<not> Contains ''data: {malformed}'' detailOpen"
  "\<not> Contains rateLimited detailMarker" "Contains rateLimited detailOpen"
  "\<not> Contains rateLimitedData detailMarker" "Contains rateLimitedData detailOpen"
  "Contains markerData detailMarker" "Contains markerData detailOpen"
  by (simp_all add: detailMarker_def detailOpen_def rateLimited_def rateLimitedData_def markerData_def)

lemma scan_malformed:
  "\<not> Contains ''data: {malformed}'' marker \<Longrightarrow>
   scanLoop marker goLib ch messages (''data: {malformed}'' # rest) = scanLoop marker goLib ch messages rest"
  by (rule scanLoop_ignored) (simp_all add: HasPrefix_def TrimPrefix_def decode_malformed)

lemma scan_good_buffered:
  "\<not> Contains goodLine marker \<Longrightarrow>
   scanLoop marker goLib None messages (goodLine # rest)
     = scanLoop marker goLib None (messages @ [response goLib ''Hi'' ''c1'' ''m1'']) rest"
  by (rule scanLoop_text_buffered) (simp_all add: good_shape decode_good)

lemma scan_good_live:
  "\<not> Contains goodLine marker \<Longrightarrow>
   scanLoop marker goLib (Some c) messages (goodLine # rest)
     = scanLoop marker goLib (Some (send c (response goLib ''Hi'' ''c1'' ''m1''))) messages rest"
  using scanLoop_text_live [of goodLine marker goLib "''Hi''" "''c1''" "''m1''" c messages rest]
  by (simp add: good_shape decode_good)

lemma scan_example_buffered:
  "\<not> Contains ''data: {malformed}'' marker \<Longrightarrow> \<not> Contains goodLine marker \<Longrightarrow>
   \<not> Contains ''data: [DONE]'' marker \<Longrightarrow>
   scanLoop marker goLib None [] (tl exampleStream) = (Inr [response goLib ''Hi'' ''c1'' ''m1''], None)"
  by (simp add: exampleStream_def scanLoop_skip scan_malformed scan_good_buffered scanLoop_done
      del: scanLoop.simps)

lemma scan_example_live:
  "\<not> Contains ''data: {malformed}'' marker \<Longrightarrow> \<not> Contains goodLine marker \<Longrightarrow>
   \<not> Contains ''data: [DONE]'' marker \<Longrightarrow>
   scanLoop marker goLib (Some c) [] (tl exampleStream)
     = (Inr [], Some (send c (response goLib ''Hi'' ''c1'' ''m1'')))"
  by (simp add: exampleStream_def scanLoop_skip scan_malformed scan_good_live scanLoop_done
      del: scanLoop.simps)

lemma example_first: "exampleStream \<noteq> []" "hd exampleStream = ''event: x''"
  by (simp_all add: exampleStream_def)

text \<open>
  Claim C3, at its own input: buffered decoding of the synthetic stream by
  \<^verbatim>\<open>parseResponse\<close> of ask.go does not return a list. The loop of \<^verbatim>\<open>startScan\<close>
  decodes the one frame and leaves at the sentinel; then \<^verbatim>\<open>close(streamChannel)\<close> runs on
  the \<^verbatim>\<open>nil\<close> channel of buffered mode, and the call panics.
\<close>

theorem parseResponse_example_panics:
  "returned (parseResponse goLib None exampleStream) = Inl (Panic ''close of nil channel'')"
  by (simp add: parseResponse_def startScan_def close_def example_first no_marker_fixed
      no_marker_good scan_example_buffered del: Contains.simps)

text \<open>
  The other revision closes the channel only when there is one: there the same call returns
  the one frame of C3, with conversation id \<open>c1\<close>, parent id \<open>m1\<close> and text \<open>Hi\<close>.
\<close>

lemma parseResponse_part000_example:
  "returned (parseResponse_part000 goLib None exampleStream) = Inr [response goLib ''Hi'' ''c1'' ''m1'']"
  by (simp add: parseResponse_part000_def startScan_part000_def close_def example_first
      no_marker_fixed no_marker_good scan_example_buffered del: Contains.simps)

text \<open>In ask.go no buffered scan returns a list, whatever the stream.\<close>

lemma startScan_nil_channel_fails: "\<exists>e. fst (startScan L None lines) = Inl e"
proof (cases "scanLoop detailMarker L None [] lines")
  case (Pair r ch)
  with scanLoop_nil_channel [of detailMarker L "[]" lines] have "ch = None" by simp
  with Pair show ?thesis
    by (cases r) (simp_all add: startScan_def close_def)
qed

text \<open>
  Claim C7, at its own input: a stream whose first line is the detail object. ask.go looks
  for the literal \<^verbatim>\<open>{"detail":}\<close>, which the line does not contain, so no error is
  returned for it: in buffered mode the call goes on to the scan and panics at the close of
  the \<^verbatim>\<open>nil\<close> channel, and in live mode it returns an empty list and no error, and the
  goroutine ends without one.
\<close>

theorem parseResponse_rate_limited:
  "returned (parseResponse goLib None [rateLimited]) = Inl (Panic ''close of nil channel'')
   \<and> returned (parseResponse goLib (Some newChannel) [rateLimited]) = Inr []
   \<and> goroutine (parseResponse goLib (Some newChannel) [rateLimited]) = Some (Inr [])"
  by (simp add: parseResponse_def startScan_def close_def no_marker_fixed newChannel_def
      del: Contains.simps)

text \<open>
  The other revision looks for \<^verbatim>\<open>{"detail":\<close>: a first line that contains it ends the
  call with the error, no frame, no goroutine and the channel untouched.
\<close>

lemma parseResponse_part000_first_line:
  assumes "lines \<noteq> []" "Contains (hd lines) detailOpen"
  shows "parseResponse_part000 L ch lines
           = \<lparr>returned = Inl (Errorf (FindString_detail (hd lines))), goroutine = None, channel = ch\<rparr>"
  using assms by (simp add: parseResponse_part000_def)

lemma FindString_rateLimited: "FindString_detail rateLimited = rateLimited"
  by (simp add: FindString_detail_def rateLimited_def detailOpen_def)

lemma data_not_event: "HasPrefix line ''data: '' \<Longrightarrow> \<not> HasPrefix line ''event: '' \<and> line \<noteq> []"
  by (cases line) (auto simp: HasPrefix_def)

lemma scan_detail:
  "HasPrefix line ''data: '' \<Longrightarrow> Contains line marker \<Longrightarrow>
   scanLoop marker L ch messages (line # rest) = (Inl (Errorf (FindString_detail line)), ch)"
  using data_not_event [of line] by simp

text \<open>
  Claim C8, at a failing input: live mode, a detail frame in the middle of the stream. In
  both revisions \<^verbatim>\<open>startScan\<close> returns the error from inside the loop, and the channel is
  left open: nothing was sent and it was never closed.
\<close>

theorem live_detail_leaves_channel_open:
  "channel (parseResponse goLib (Some newChannel) [''event: x'', markerData])
     = Some \<lparr>sent = [], closed = False\<rparr>
   \<and> goroutine (parseResponse goLib (Some newChannel) [''event: x'', markerData])
     = Some (Inl (Errorf detailMarker))
   \<and> channel (parseResponse_part000 goLib (Some newChannel) [''event: x'', rateLimitedData])
     = Some \<lparr>sent = [], closed = False\<rparr>
   \<and> goroutine (parseResponse_part000 goLib (Some newChannel) [''event: x'', rateLimitedData])
     = Some (Inl (Errorf rateLimited))"
proof -
  have a: "scanLoop detailMarker goLib (Some newChannel) [] [markerData]
             = (Inl (Errorf (FindString_detail markerData)), Some newChannel)"
    by (rule scan_detail) (simp_all add: no_marker_fixed, simp add: markerData_def HasPrefix_def)
  have b: "scanLoop detailOpen goLib (Some newChannel) [] [rateLimitedData]
             = (Inl (Errorf (FindString_detail rateLimitedData)), Some newChannel)"
    by (rule scan_detail) (simp_all add: no_marker_fixed, simp add: rateLimitedData_def HasPrefix_def)
  have c: "FindString_detail markerData = detailMarker"
    by (simp add: FindString_detail_def markerData_def detailOpen_def detailMarker_def)
  have d: "FindString_detail rateLimitedData = rateLimited"
    by (simp add: FindString_detail_def rateLimitedData_def rateLimited_def detailOpen_def)
  show ?thesis
    by (simp add: parseResponse_def parseResponse_part000_def startScan_def startScan_part000_def
        a b c d no_marker_fixed del: Contains.simps scanLoop.simps) (simp add: newChannel_def)
qed

text \<open>
  On the other paths of live mode the claim holds: when the scan ends at the sentinel or at
  the end of the input, the channel has been closed, once; when it ends with an error or a
  panic inside the loop, the channel is still open.
\<close>

lemma startScan_live_success_closes:
  assumes "\<not> closed c" "fst (startScan L (Some c) lines) = Inr ms"
  shows "\<exists>c'. snd (startScan L (Some c) lines) = Some c' \<and> closed c'"
proof -
  obtain r c' where s: "scanLoop detailMarker L (Some c) [] lines = (r, Some c')" "closed c' = closed c"
    using scanLoop_channel_closed [of detailMarker L c "[]" lines]
    by (metis prod.collapse)
  with assms show ?thesis
    by (cases r) (simp_all add: startScan_def close_def)
qed

lemma startScan_live_error_leaves_open:
  assumes "\<not> closed c" "fst (startScan L (Some c) lines) = Inl e"
  shows "\<exists>c'. snd (startScan L (Some c) lines) = Some c' \<and> \<not> closed c'"
proof -
  obtain r c' where s: "scanLoop detailMarker L (Some c) [] lines = (r, Some c')" "closed c' = closed c"
    using scanLoop_channel_closed [of detailMarker L c "[]" lines]
    by (metis prod.collapse)
  with assms show ?thesis
    by (cases r) (simp_all add: startScan_def close_def)
qed

lemma scan_blank_live:
  "\<not> Contains blankLine marker \<Longrightarrow>
   scanLoop marker goLib (Some c) messages (blankLine # rest)
     = scanLoop marker goLib (Some (send c (response goLib '' '' ''c1'' ''m1''))) messages rest"
  using scanLoop_text_live [of blankLine marker goLib "'' ''" "''c1''" "''m1''" c messages rest]
  by (simp add: blank_shape decode_blank)

lemma scan_empty_buffered:
  "\<not> Contains emptyLine marker \<Longrightarrow>
   scanLoop marker goLib None messages (emptyLine # rest)
     = scanLoop marker goLib None (messages @ [response goLib [] ''c1'' ''m1'']) rest"
  by (rule scanLoop_text_buffered) (simp_all add: empty_shape decode_empty)

lemma response_blank:
  "response goLib '' '' ''c1'' ''m1''
     = \<lparr>Message = [], ConversationID = ''c1'', ParentID = ''m1'', Model = [], done' = False\<rparr>"
  "response goLib [] ''c1'' ''m1''
     = \<lparr>Message = [], ConversationID = ''c1'', ParentID = ''m1'', Model = [], done' = False\<rparr>"
  by (simp_all add: response_def goLib_def TrimSpaceASCII_def isSpace_def)

text \<open>
  Frames with an empty text are delivered. In live mode a part that is a single space
  passes the test \<^verbatim>\<open>message != ""\<close> and is sent with its text trimmed to the empty
  string. In buffered mode a part that is the empty string is appended to the list: by the
  loop of ask.go, and in the list that the other revision returns.
\<close>

theorem empty_text_delivered_counterexample:
  "channel (parseResponse goLib (Some newChannel) [''event: x'', blankLine])
     = Some \<lparr>sent = [\<lparr>Message = [], ConversationID = ''c1'', ParentID = ''m1'', Model = [],
                        done' = False\<rparr>],
             closed = True\<rparr>
   \<and> scanLoop detailMarker goLib None [] [emptyLine]
     = (Inr [\<lparr>Message = [], ConversationID = ''c1'', ParentID = ''m1'', Model = [],
              done' = False\<rparr>], None)
   \<and> returned (parseResponse_part000 goLib None [''event: x'', emptyLine])
     = Inr [\<lparr>Message = [], ConversationID = ''c1'', ParentID = ''m1'', Model = [],
             done' = False\<rparr>]"
proof -
  have a: "scanLoop detailMarker goLib (Some newChannel) [] [blankLine]
             = (Inr [], Some (send newChannel (response goLib '' '' ''c1'' ''m1'')))"
    by (simp add: scan_blank_live no_marker_blank del: scanLoop.simps) simp
  have b: "scanLoop marker goLib None [] [emptyLine] = (Inr [response goLib [] ''c1'' ''m1''], None)"
    if "\<not> Contains emptyLine marker" for marker
    using that by (simp add: scan_empty_buffered del: scanLoop.simps) simp
  show ?thesis
    by (simp add: parseResponse_def parseResponse_part000_def startScan_def startScan_part000_def
        a b no_marker_fixed no_marker_empty response_blank
        del: Contains.simps scanLoop.simps)
       (simp add: close_def send_def newChannel_def)
qed
lemma textFrames_Nil: "textFrames marker L [] = []"
  by (simp add: textFrames_def List.map_filter_simps)

lemma textFrames_Cons:
  "textFrames marker L (line # rest)
     = (if endsScan marker L line then []
        else (case frameOf L line of
                None \<Rightarrow> textFrames marker L rest
              | Some f \<Rightarrow> f # textFrames marker L rest))"
  by (simp add: textFrames_def List.map_filter_simps split: option.splits)

lemma delivered_Cons:
  "delivered L ((m, cid, pid) # fs)
     = (if m \<noteq> [] then response L m cid pid # delivered L fs else delivered L fs)"
  by (simp add: delivered_def)

lemma scanLoop_delivers:
  "\<exists>c'. snd (scanLoop marker L (Some c) messages lines) = Some c'
     \<and> sent c' = sent c @ delivered L (textFrames marker L lines)"
proof (induction lines arbitrary: c messages)
  case Nil
  show ?case by (simp add: textFrames_Nil delivered_def)
next
  case (Cons line rest)
  show ?case
  proof (cases "isData line")
    case False
    then have "scanLoop marker L (Some c) messages (line # rest)
                 = scanLoop marker L (Some c) messages rest"
      by (intro scanLoop_skip) (simp add: isData_def)
    moreover from False have "textFrames marker L (line # rest) = textFrames marker L rest"
      by (simp add: textFrames_Cons endsScan_def frameOf_def)
    ultimately show ?thesis using Cons.IH [of c messages] by simp
  next
    case data: True
    then have shape: "HasPrefix line ''data: ''" "\<not> HasPrefix line ''event: ''" "line \<noteq> []"
      using data_not_event [of line] by (simp_all add: isData_def)
    show ?thesis
    proof (cases "Contains line marker \<or> TrimPrefix line ''data: '' = ''[DONE]''")
      case True
      then have "endsScan marker L line"
        using data by (auto simp: endsScan_def)
      then have "textFrames marker L (line # rest) = []"
        by (simp add: textFrames_Cons)
      moreover from True shape have "snd (scanLoop marker L (Some c) messages (line # rest)) = Some c"
        by auto
      ultimately show ?thesis by (simp add: delivered_def)
    next
      case go: False
      show ?thesis
      proof (cases "decodeData L (TrimPrefix line ''data: '')")
        case Ignored
        with go data have "textFrames marker L (line # rest) = textFrames marker L rest"
          by (simp add: textFrames_Cons endsScan_def frameOf_def)
        moreover from Ignored go shape
        have "scanLoop marker L (Some c) messages (line # rest)
                = scanLoop marker L (Some c) messages rest"
          by simp
        ultimately show ?thesis using Cons.IH [of c messages] by simp
      next
        case (Crash p)
        with data have "textFrames marker L (line # rest) = []"
          by (simp add: textFrames_Cons endsScan_def)
        moreover from Crash go shape
        have "snd (scanLoop marker L (Some c) messages (line # rest)) = Some c"
          by simp
        ultimately show ?thesis by (simp add: delivered_def)
      next
        case (Text m cid pid)
        with go data have tf: "textFrames marker L (line # rest)
            = (m, cid, pid) # textFrames marker L rest"
          by (simp add: textFrames_Cons endsScan_def frameOf_def)
        show ?thesis
        proof (cases "m = []")
          case True
          with Text go shape
          have "scanLoop marker L (Some c) messages (line # rest)
                  = scanLoop marker L (Some c) (messages @ [response L m cid pid]) rest"
            by (simp add: response_def)
          with True tf show ?thesis
            using Cons.IH [of c "messages @ [response L m cid pid]"]
            by (simp add: delivered_Cons)
        next
          case False
          with Text go shape
          have "scanLoop marker L (Some c) messages (line # rest)
                  = scanLoop marker L (Some (send c (response L m cid pid))) messages rest"
            by (simp add: response_def)
          with False tf show ?thesis
            using Cons.IH [of "send c (response L m cid pid)" messages]
            by (simp add: delivered_Cons send_def)
        qed
      qed
    qed
  qed
qed

text \<open>
  Claim C10, as amended. In live mode, for every stream and every library, what
  \<^verbatim>\<open>startScan\<close> sends on the channel is exactly, and in their order, the responses to
  those frames of the stream whose text, as decoded and before it is trimmed, is not empty:
  no response is sent for a frame whose decoded text is the empty string.
\<close>

theorem startScan_delivers_nonempty_frames:
  "\<exists>c'. snd (startScan L (Some c) lines) = Some c'
     \<and> sent c' = sent c @ delivered L (textFrames detailMarker L lines)"
proof -
  obtain c' where n: "snd (scanLoop detailMarker L (Some c) [] lines) = Some c'"
      "sent c' = sent c @ delivered L (textFrames detailMarker L lines)"
    using scanLoop_delivers [of detailMarker L c "[]" lines] by blast
  obtain r where r: "scanLoop detailMarker L (Some c) [] lines = (r, Some c')"
    using n(1) by (cases "scanLoop detailMarker L (Some c) [] lines") simp
  show ?thesis
  proof (cases r)
    case (Inl e)
    with r n show ?thesis by (simp add: startScan_def)
  next
    case (Inr ms)
    with r n show ?thesis by (cases "closed c'") (simp_all add: startScan_def close_def)
  qed
qed

lemma frames_of_lines:
  "frameOf goLib goodLine = Some (''Hi'', ''c1'', ''m1'')"
  "frameOf goLib emptyLine = Some ([], ''c1'', ''m1'')"
  "frameOf goLib blankLine = Some ('' '', ''c1'', ''m1'')"
  "frameOf goLib ''event: x'' = None"
  by (simp_all add: frameOf_def isData_def good_shape empty_shape blank_shape
      decode_good decode_empty decode_blank) (simp add: HasPrefix_def)

lemma lines_go_on:
  "\<not> Contains goodLine marker \<Longrightarrow> \<not> endsScan marker goLib goodLine"
  "\<not> Contains emptyLine marker \<Longrightarrow> \<not> endsScan marker goLib emptyLine"
  "\<not> Contains blankLine marker \<Longrightarrow> \<not> endsScan marker goLib blankLine"
  "\<not> endsScan marker goLib ''event: x''"
  "endsScan marker goLib ''data: [DONE]''"
  by (simp_all add: endsScan_def isData_def good_shape empty_shape blank_shape
      decode_good decode_empty decode_blank) (simp_all add: HasPrefix_def TrimPrefix_def)

lemma textFrames_mixedStream:
  "\<not> Contains goodLine marker \<Longrightarrow> \<not> Contains emptyLine marker \<Longrightarrow> \<not> Contains blankLine marker \<Longrightarrow>
   textFrames marker goLib mixedStream
     = [(''Hi'', ''c1'', ''m1''), ([], ''c1'', ''m1''), ('' '', ''c1'', ''m1'')]"
  by (simp add: mixedStream_def textFrames_Cons frames_of_lines lines_go_on)

text \<open>
  A run of it: of the three frames of the stream, the one with the empty text is not sent.
\<close>

theorem startScan_delivers_nonempty_frames_witness:
  "textFrames detailMarker goLib mixedStream
     = [(''Hi'', ''c1'', ''m1''), ([], ''c1'', ''m1''), ('' '', ''c1'', ''m1'')]
   \<and> (\<exists>c'. snd (startScan goLib (Some newChannel) mixedStream) = Some c'
         \<and> sent c' = [response goLib ''Hi'' ''c1'' ''m1'', response goLib '' '' ''c1'' ''m1''])"
proof -
  have f: "textFrames detailMarker goLib mixedStream
     = [(''Hi'', ''c1'', ''m1''), ([], ''c1'', ''m1''), ('' '', ''c1'', ''m1'')]"
    by (rule textFrames_mixedStream) (simp_all add: no_marker_good no_marker_empty no_marker_blank)
  show ?thesis
    using startScan_delivers_nonempty_frames [of goLib newChannel mixedStream]
    by (simp add: f delivered_def newChannel_def)
qed

text \<open>The same for the other revision.\<close>

lemma startScan_part000_delivers_nonempty_frames:
  "\<exists>c'. snd (startScan_part000 L (Some c) lines) = Some c'
     \<and> sent c' = sent c @ delivered L (textFrames detailOpen L lines)"
proof -
  obtain c' where n: "snd (scanLoop detailOpen L (Some c) [] lines) = Some c'"
      "sent c' = sent c @ delivered L (textFrames detailOpen L lines)"
    using scanLoop_delivers [of detailOpen L c "[]" lines] by blast
  obtain r where r: "scanLoop detailOpen L (Some c) [] lines = (r, Some c')"
    using n(1) by (cases "scanLoop detailOpen L (Some c) [] lines") simp
  show ?thesis
  proof (cases r)
    case (Inl e)
    with r n show ?thesis by (simp add: startScan_part000_def)
  next
    case (Inr ms)
    with r n show ?thesis by (cases "closed c'") (simp_all add: startScan_part000_def close_def)
  qed
qed

subsection \<open>Credential cache\<close>

lemma cacheAccessToken_written:
  "\<not> create_fails fs \<Longrightarrow> json_string L (sessionName a) = sessionName a \<Longrightarrow>
   json_string L (accessToken a) = accessToken a \<Longrightarrow> json_time L (expires a) = Some (expires a) \<Longrightarrow>
   cacheAccessToken L a fs
     = (None, fs\<lparr>gpt_cache_json :=
          Decodable ((previousData fs)(sessionName a \<mapsto> \<lparr>AccessToken = accessToken a, Expires = expires a\<rparr>))\<rparr>)"
  by (simp add: cacheAccessToken_def previousData_def Let_def)

lemma cacheAccessToken_fails:
  "create_fails fs \<Longrightarrow> cacheAccessToken L a fs = (Some CreateError, fs)"
  by (simp add: cacheAccessToken_def Let_def)

lemma load_entry:
  "entry fs (sessionName b) = Some e \<Longrightarrow>
   loadCachedAccessToken b fs = b\<lparr>accessToken := AccessToken e, expires := Expires e\<rparr>"
  by (auto simp: entry_def loadCachedAccessToken_def split: cache_file.splits option.splits)

lemma load_absent: "entry fs (sessionName b) = None \<Longrightarrow> loadCachedAccessToken b fs = b"
  by (auto simp: entry_def loadCachedAccessToken_def split: cache_file.splits option.splits)

text \<open>
  When the encoder cannot write the expiry, \<^verbatim>\<open>cacheAccessToken\<close> returns the error of the
  encoder and leaves a file that holds no entry at all: those of the other sessions are lost.
\<close>

lemma cacheAccessToken_expiry_not_written:
  "\<not> create_fails fs \<Longrightarrow> json_time L (expires a) = None \<Longrightarrow>
   fst (cacheAccessToken L a fs) = Some EncodeError
   \<and> entry (snd (cacheAccessToken L a fs)) s2 = None
   \<and> loadCachedAccessToken b (snd (cacheAccessToken L a fs)) = b"
  by (simp add: cacheAccessToken_def Let_def entry_def loadCachedAccessToken_def)

lemma replaceBytes_T: "replaceBytes ''T'' = ''T''" "replaceBytes ''s1'' = ''s1''"
  by (simp_all add: replaceBytes_def)

lemma replaceBytes_FF: "replaceBytes [CHR 0xFF, CHR ''T''] = [CHR 0xEF, CHR 0xBF, CHR 0xBD, CHR ''T'']"
  by (simp add: replaceBytes_def)

text \<open>
  Claim C6 as stated does not hold of every token. Session \<open>s1\<close> stores a token of the two
  bytes FF 54 with expiry 5, where there is no cache file. The store succeeds; the encoder
  writes U+FFFD for the byte FF, so that loading \<open>s1\<close> gives a token of four bytes,
  EF BF BD 54, and not the token stored.
\<close>

theorem cache_token_replaced_counterexample:
  "sessionName authFF = ''s1'' \<and> sessionName blankS1 = ''s1''
   \<and> accessToken authFF = [CHR 0xFF, CHR ''T''] \<and> expires authFF = 5
   \<and> fst (cacheAccessToken goLib authFF noCacheFile) = None
   \<and> accessToken (loadCachedAccessToken blankS1 (snd (cacheAccessToken goLib authFF noCacheFile)))
       = [CHR 0xEF, CHR 0xBF, CHR 0xBD, CHR ''T'']
   \<and> accessToken (loadCachedAccessToken blankS1 (snd (cacheAccessToken goLib authFF noCacheFile)))
       \<noteq> accessToken authFF"
  by (simp add: cacheAccessToken_def loadCachedAccessToken_def authFF_def blankS1_def noCacheFile_def
      goLib_def replaceBytes_def writtenTime_def Let_def)

text \<open>
  Claim C6, as amended. For a session \<open>s1\<close> whose name and token the encoder writes as they
  are, an expiry that the encoder can write and reads back as it is, another session \<open>s2\<close>
  and a cache file that can be created: storing the credential of \<open>s1\<close> succeeds, and
  loading \<open>s1\<close> from what was written gives exactly the token and the expiry stored; the
  entry of \<open>s2\<close> in the written mapping is the one that was read from the file before; and
  loading \<open>s1\<close> from a cache whose only entry is that of \<open>s2\<close> changes nothing in memory.
\<close>

theorem cache_store_then_load:
  assumes "sessionName a = s1" "sessionName b = s1" "s1 \<noteq> s2" "\<not> create_fails fs"
    and "json_string L s1 = s1" "json_string L (accessToken a) = accessToken a"
    and "json_time L (expires a) = Some (expires a)"
  shows "fst (cacheAccessToken L a fs) = None
         \<and> accessToken (loadCachedAccessToken b (snd (cacheAccessToken L a fs))) = accessToken a
         \<and> expires (loadCachedAccessToken b (snd (cacheAccessToken L a fs))) = expires a
         \<and> entry (snd (cacheAccessToken L a fs)) s2 = previousData fs s2
         \<and> loadCachedAccessToken b (fs\<lparr>gpt_cache_json := Decodable [s2 \<mapsto> e]\<rparr>) = b"
proof -
  have w: "cacheAccessToken L a fs
     = (None, fs\<lparr>gpt_cache_json :=
          Decodable ((previousData fs)(sessionName a \<mapsto> \<lparr>AccessToken = accessToken a, Expires = expires a\<rparr>))\<rparr>)"
    using assms by (intro cacheAccessToken_written) simp_all
  have "entry (snd (cacheAccessToken L a fs)) (sessionName b)
          = Some \<lparr>AccessToken = accessToken a, Expires = expires a\<rparr>"
    using assms by (simp add: w entry_def)
  then have "loadCachedAccessToken b (snd (cacheAccessToken L a fs))
          = b\<lparr>accessToken := accessToken a, expires := expires a\<rparr>"
    by (simp add: load_entry)
  moreover have "entry (snd (cacheAccessToken L a fs)) s2 = previousData fs s2"
    using assms by (simp add: w entry_def)
  moreover have "loadCachedAccessToken b (fs\<lparr>gpt_cache_json := Decodable [s2 \<mapsto> e]\<rparr>) = b"
    using assms by (intro load_absent) (simp add: entry_def)
  ultimately show ?thesis
    by (simp add: w)
qed

theorem cache_store_then_load_witness:
  "sessionName authS1 = ''s1'' \<and> sessionName blankS1 = ''s1'' \<and> ''s1'' \<noteq> ''s2''
   \<and> \<not> create_fails cacheS2
   \<and> json_string goLib ''s1'' = ''s1'' \<and> json_string goLib (accessToken authS1) = accessToken authS1
   \<and> json_time goLib (expires authS1) = Some (expires authS1)
   \<and> accessToken (loadCachedAccessToken blankS1 (snd (cacheAccessToken goLib authS1 cacheS2))) = ''T''
   \<and> expires (loadCachedAccessToken blankS1 (snd (cacheAccessToken goLib authS1 cacheS2))) = 5
   \<and> entry (snd (cacheAccessToken goLib authS1 cacheS2)) ''s2'' = Some \<lparr>AccessToken = ''U'', Expires = 7\<rparr>
   \<and> loadCachedAccessToken blankS1 cacheS2 = blankS1"
proof -
  have h: "sessionName authS1 = ''s1''" "sessionName blankS1 = ''s1''" "''s1'' \<noteq> ''s2''"
    "\<not> create_fails cacheS2"
    "json_string goLib ''s1'' = ''s1''" "json_string goLib (accessToken authS1) = accessToken authS1"
    "json_time goLib (expires authS1) = Some (expires authS1)"
    by (simp_all add: authS1_def blankS1_def cacheS2_def goLib_def replaceBytes_def writtenTime_def)
  have p: "previousData cacheS2 ''s2'' = Some \<lparr>AccessToken = ''U'', Expires = 7\<rparr>"
    by (simp add: previousData_def cacheS2_def)
  have u: "cacheS2\<lparr>gpt_cache_json := Decodable [''s2'' \<mapsto> \<lparr>AccessToken = ''U'', Expires = 7\<rparr>]\<rparr> = cacheS2"
    by (simp add: cacheS2_def)
  have t: "accessToken authS1 = ''T''" "expires authS1 = 5"
    by (simp_all add: authS1_def)
  show ?thesis
    using h p t cache_store_then_load [OF h, of "\<lparr>AccessToken = ''U'', Expires = 7\<rparr>"]
    by (simp add: u)
qed

subsection \<open>Login handshake\<close>

lemma Do_next: "script w = r # rs \<Longrightarrow> Do w req = (r, w\<lparr>script := rs, log := log w @ [req]\<rparr>)"
  by (simp add: Do_def)

lemma stepTwo_final_eq:
  "script w = Some r4 # rest \<Longrightarrow> http_NewRequest L u \<Longrightarrow>
   stepTwo_final L w cs u
     = (if StatusCode r4 \<noteq> 302 then Inl (ChatError (''bad status for url: '' @ u) (StatusCode r4))
        else Inr (Location r4),
        w\<lparr>script := rest, log := log w @ [GET u cs]\<rparr>)"
  by (simp add: stepTwo_final_def Do_next)

lemma stepTwo_final_refused:
  "\<not> http_NewRequest L u \<Longrightarrow> stepTwo_final L w cs u = (Inl (Panic ''nil pointer dereference''), w)"
  by (simp add: stepTwo_final_def)

lemma stepTwo_password_eq:
  "script w = Some r3 # Some r4 # rest \<Longrightarrow> http_NewRequest L u \<Longrightarrow>
   fst (stepTwo_password L w cs st u e p)
     = (if StatusCode r3 = 400 then Inl invalidCredentials
        else if StatusCode r3 \<noteq> 302
        then Inl (ChatError (''bad status for url: '' @ u) (StatusCode r3))
        else if \<not> http_NewRequest L (url_prefix @ Location r3)
        then Inl (Panic ''nil pointer dereference'')
        else if StatusCode r4 \<noteq> 302
        then Inl (ChatError (''bad status for url: '' @ url_prefix @ Location r3) (StatusCode r4))
        else Inr (Location r4))"
  by (simp add: stepTwo_password_def Do_next checkPostStatus_def stepTwo_final_eq stepTwo_final_refused)

lemma stepTwo_password_refused:
  "\<not> http_NewRequest L u \<Longrightarrow>
   stepTwo_password L w cs st u e p = (Inl (Panic ''nil pointer dereference''), w)"
  by (simp add: stepTwo_password_def)

lemma stepTwo_username_eq:
  "script w = Some r2 # Some r3 # Some r4 # rest \<Longrightarrow> http_NewRequest L u \<Longrightarrow>
   fst (stepTwo_username L w cs st u e p)
     = (if StatusCode r2 = 400 then Inl invalidCredentials
        else if StatusCode r2 \<noteq> 302
        then Inl (ChatError (''bad status for url: '' @ u) (StatusCode r2))
        else if \<not> http_NewRequest L (url_prefix @ Location r2)
        then Inl (Panic ''nil pointer dereference'')
        else if StatusCode r3 = 400 then Inl invalidCredentials
        else if StatusCode r3 \<noteq> 302
        then Inl (ChatError (''bad status for url: '' @ url_prefix @ Location r2) (StatusCode r3))
        else if \<not> http_NewRequest L (url_prefix @ Location r3)
        then Inl (Panic ''nil pointer dereference'')
        else if StatusCode r4 \<noteq> 302
        then Inl (ChatError (''bad status for url: '' @ url_prefix @ Location r3) (StatusCode r4))
        else Inr (Location r4))"
  by (simp add: stepTwo_username_def Do_next checkPostStatus_def stepTwo_password_eq [where rest = rest]
      stepTwo_password_refused)

lemma stepTwo_success:
  assumes "script w = Some r1 # Some r2 # Some r3 # Some r4 # rest"
    and "StatusCode r1 = 302" "StatusCode r2 = 302" "StatusCode r3 = 302" "StatusCode r4 = 302"
    and "currentState (url_prefix @ Location r1) = Inr st"
    and "http_NewRequest L auth_url" "http_NewRequest L (url_prefix @ Location r1)"
    and "http_NewRequest L (url_prefix @ Location r2)" "http_NewRequest L (url_prefix @ Location r3)"
  shows "stepTwo L w auth_url e p
     = (Inr (Location r4),
        w\<lparr>script := rest,
          log := log w @
            [GET auth_url [],
             POST (url_prefix @ Location r1) (usernameForm st e) (Cookies r1),
             POST (url_prefix @ Location r2) (passwordForm st e p) (Cookies r1),
             GET (url_prefix @ Location r3) (Cookies r1)]\<rparr>)"
  using assms
  by (simp add: stepTwo_def stepTwo_username_def stepTwo_password_def stepTwo_final_def
      Do_next checkPostStatus_def)

lemma handshake_run:
  assumes "script w = Some r0 # Some r1 # Some r2 # Some r3 # Some r4 # Some r5 # rest"
    and "StatusCode r0 = 200" "endpointJSON r0 = Some (state0, url0)"
    and "StatusCode r1 = 302" "StatusCode r2 = 302" "StatusCode r3 = 302" "StatusCode r4 = 302"
    and "currentState (url_prefix @ Location r1) = Inr st"
    and "http_NewRequest L url0" "http_NewRequest L (url_prefix @ Location r1)"
    and "http_NewRequest L (url_prefix @ Location r2)" "http_NewRequest L (url_prefix @ Location r3)"
    and "tokenJSON r5 = Some resp"
    and "accessToken a = []" "entry fs (sessionName a) = None"
    and "email a \<noteq> []" "password a \<noteq> []"
  shows "GetAccessToken L a w fs now
     = (Inr (resp_AccessToken resp),
        a\<lparr>authState := state0, accessToken := resp_AccessToken resp, expires := resp_Expires resp\<rparr>,
        w\<lparr>script := rest,
          log := log w @
          [GET endpointURL [],
           GET url0 [],
           POST (url_prefix @ Location r1) (usernameForm st (email a)) (Cookies r1),
           POST (url_prefix @ Location r2) (passwordForm st (email a) (password a)) (Cookies r1),
           GET (url_prefix @ Location r3) (Cookies r1),
           POST tokenURL (''state='' @ state0 @ ''&callbackUrl='' @ QueryEscape (Location r4)) []]\<rparr>,
        if enableCache a
        then snd (cacheAccessToken L
               (a\<lparr>authState := state0, accessToken := resp_AccessToken resp,
                   expires := resp_Expires resp\<rparr>) fs)
        else fs)"
proof -
  have load: "loadCachedAccessToken a fs = a"
    using assms(15)
    by (auto simp: entry_def loadCachedAccessToken_def split: cache_file.splits option.splits)
  have one: "stepOne a w
      = (Inr url0, a\<lparr>authState := state0\<rparr>,
         w\<lparr>script := Some r1 # Some r2 # Some r3 # Some r4 # Some r5 # rest,
           log := log w @ [GET endpointURL []]\<rparr>)"
    using assms(1-3) by (simp add: stepOne_def Do_next)
  let ?w1 = "w\<lparr>script := Some r1 # Some r2 # Some r3 # Some r4 # Some r5 # rest,
           log := log w @ [GET endpointURL []]\<rparr>"
  have two: "stepTwo L ?w1 url0 (email a) (password a)
      = (Inr (Location r4),
         ?w1\<lparr>script := Some r5 # rest,
          log := log ?w1 @
            [GET url0 [],
             POST (url_prefix @ Location r1) (usernameForm st (email a)) (Cookies r1),
             POST (url_prefix @ Location r2) (passwordForm st (email a) (password a)) (Cookies r1),
             GET (url_prefix @ Location r3) (Cookies r1)]\<rparr>)"
    using assms(4-12) by (intro stepTwo_success) simp_all
  show ?thesis
    using assms(13,14,16,17)
    by (simp add: GetAccessToken_def load one two stepThree_def Do_next Let_def)
qed

lemma currentState_B: "currentState (url_prefix @ ''/u/login/identifier?state=B'') = Inr ''B''"
  by (simp add: currentState_def url_prefix_def Split_def index_def)

lemma goLib_addresses:
  "http_NewRequest goLib authorizeURL"
  "http_NewRequest goLib (url_prefix @ ''/u/login/identifier?state=B'')"
  "http_NewRequest goLib (url_prefix @ ''/u/login/password?state=B'')"
  "http_NewRequest goLib (url_prefix @ ''/authorize/resume?state=B'')"
  by (simp_all add: goLib_def plainAddress_def plainChar_def authorizeURL_def url_prefix_def)

lemma loginScript_shape:
  "loginScript =
     [Some (ok200\<lparr>endpointJSON := Some (''A'', authorizeURL)\<rparr>),
      Some identifierResponse,
      Some (found302 ''/u/login/password?state=B''),
      Some (found302 ''/authorize/resume?state=B''),
      Some (found302 ''https://chat.openai.com/api/auth/callback/auth0?code=xyz''),
      Some (ok200\<lparr>tokenJSON := Some freshToken\<rparr>)]"
  by (simp add: loginScript_def)

lemma login_addresses:
  "http_NewRequest goLib (url_prefix @ Location identifierResponse)"
  "http_NewRequest goLib (url_prefix @ Location (found302 ''/u/login/password?state=B''))"
  "http_NewRequest goLib (url_prefix @ Location (found302 ''/authorize/resume?state=B''))"
  using goLib_addresses by (simp_all add: identifierResponse_def found302_def)

lemma login_run:
  assumes "accessToken a = []" "entry fs (sessionName a) = None" "email a \<noteq> []" "password a \<noteq> []"
  shows "fst (GetAccessToken goLib a \<lparr>script = loginScript, log = []\<rparr> fs now) = Inr ''fresh''"
    and "authState (fst (snd (GetAccessToken goLib a \<lparr>script = loginScript, log = []\<rparr> fs now))) = ''A''"
    and "length (log (fst (snd (snd (GetAccessToken goLib a \<lparr>script = loginScript, log = []\<rparr> fs now))))) = 6"
proof -
  have cs: "currentState (url_prefix @ Location identifierResponse) = Inr ''B''"
    using currentState_B by (simp add: identifierResponse_def found302_def)
  note run = handshake_run [where w = "\<lparr>script = loginScript, log = []\<rparr>" and rest = "[]"
      and ?r1.0 = identifierResponse and st = "''B''" and resp = freshToken and ?state0.0 = "''A''"
      and ?url0.0 = authorizeURL and a = a and fs = fs and now = now and L = goLib,
      OF _ _ _ _ _ _ _ cs goLib_addresses(1) login_addresses(1) _ _ _ assms]
  have r: "GetAccessToken goLib a \<lparr>script = loginScript, log = []\<rparr> fs now
     = (Inr (resp_AccessToken freshToken),
        a\<lparr>authState := ''A'', accessToken := resp_AccessToken freshToken, expires := resp_Expires freshToken\<rparr>,
        \<lparr>script = loginScript, log = []\<rparr>\<lparr>script := [],
          log := log \<lparr>script = loginScript, log = []\<rparr> @
          [GET endpointURL [],
           GET authorizeURL [],
           POST (url_prefix @ Location identifierResponse) (usernameForm ''B'' (email a)) (Cookies identifierResponse),
           POST (url_prefix @ Location (found302 ''/u/login/password?state=B'')) (passwordForm ''B'' (email a) (password a)) (Cookies identifierResponse),
           GET (url_prefix @ Location (found302 ''/authorize/resume?state=B'')) (Cookies identifierResponse),
           POST tokenURL (''state='' @ ''A'' @ ''&callbackUrl='' @ QueryEscape (Location (found302 ''https://chat.openai.com/api/auth/callback/auth0?code=xyz''))) []]\<rparr>,
        if enableCache a
        then snd (cacheAccessToken goLib
               (a\<lparr>authState := ''A'', accessToken := resp_AccessToken freshToken,
                   expires := resp_Expires freshToken\<rparr>) fs)
        else fs)"
    by (rule run) (simp_all add: loginScript_shape ok200_def found302_def identifierResponse_def goLib_addresses)+
  show "fst (GetAccessToken goLib a \<lparr>script = loginScript, log = []\<rparr> fs now) = Inr ''fresh''"
    by (simp add: r freshToken_def)
  show "authState (fst (snd (GetAccessToken goLib a \<lparr>script = loginScript, log = []\<rparr> fs now))) = ''A''"
    by (simp add: r)
  show "length (log (fst (snd (snd (GetAccessToken goLib a \<lparr>script = loginScript, log = []\<rparr> fs now))))) = 6"
    by (simp add: r)
qed

lemma userAuth_facts:
  "accessToken userAuth = []" "entry noCacheFile (sessionName userAuth) = None"
  "email userAuth \<noteq> []" "password userAuth \<noteq> []"
  by (simp_all add: userAuth_def noCacheFile_def entry_def)

text \<open>
  A login in which the state echoed by the redirect (\<open>B\<close>) differs from the state recorded
  in step one (\<open>A\<close>) goes through all steps and returns the token.
\<close>

theorem state_mismatch_counterexample:
  "fst (GetAccessToken goLib userAuth \<lparr>script = loginScript, log = []\<rparr> noCacheFile 0) = Inr ''fresh''
   \<and> authState (fst (snd (GetAccessToken goLib userAuth \<lparr>script = loginScript, log = []\<rparr> noCacheFile 0))) = ''A''
   \<and> currentState (url_prefix @ Location identifierResponse) = Inr ''B''
   \<and> loginScript ! 1 = Some identifierResponse"
  using login_run(1,2) [OF userAuth_facts, of 0] currentState_B
  by (simp add: identifierResponse_def found302_def loginScript_def)

text \<open>
  What step two captures is not the \<^verbatim>\<open>state\<close> parameter of the query but the text between
  the first \<^verbatim>\<open>state=\<close> of the address and the next \<^verbatim>\<open>&\<close>: where \<^verbatim>\<open>state=\<close> first occurs as
  the end of the name \<^verbatim>\<open>mystate\<close>, it is the value of that parameter.
\<close>

lemma currentState_mystate: "currentState (url_prefix @ Location mystateLocation) = Inr ''Q''"
  by (simp add: currentState_def url_prefix_def Split_def index_def mystateLocation_def found302_def)

text \<open>
  An address that \<^verbatim>\<open>http.NewRequest\<close> refuses ends step two in a nil dereference, before
  anything is requested from it: the address given to the step, and the address made from
  the \<^verbatim>\<open>Location\<close> of the first redirect, as the one with a blank in the host.
\<close>

lemma stepTwo_refused_address:
  "\<not> http_NewRequest L auth_url \<Longrightarrow>
   stepTwo L w auth_url e p = (Inl (Panic ''nil pointer dereference''), w)"
  by (simp add: stepTwo_def)

lemma stepTwo_refused_location:
  assumes "script w = Some r1 # rest" "StatusCode r1 = 302" "http_NewRequest L auth_url"
    and "currentState (url_prefix @ Location r1) = Inr st"
    and "\<not> http_NewRequest L (url_prefix @ Location r1)"
  shows "stepTwo L w auth_url e p
           = (Inl (Panic ''nil pointer dereference''), w\<lparr>script := rest, log := log w @ [GET auth_url []]\<rparr>)"
  using assms by (simp add: stepTwo_def Do_next stepTwo_username_def)

lemma stepTwo_blank_location:
  "fst (stepTwo goLib \<lparr>script = [Some blankLocation], log = []\<rparr> authorizeURL ''e@x.org'' ''pw'')
     = Inl (Panic ''nil pointer dereference'')"
proof -
  have cs: "currentState (url_prefix @ Location blankLocation) = Inr ''B''"
    by (simp add: currentState_def url_prefix_def Split_def index_def blankLocation_def found302_def)
  have no: "\<not> http_NewRequest goLib (url_prefix @ Location blankLocation)"
    by (simp add: goLib_def plainAddress_def plainChar_def url_prefix_def blankLocation_def found302_def)
  have "stepTwo goLib \<lparr>script = [Some blankLocation], log = []\<rparr> authorizeURL ''e@x.org'' ''pw''
          = (Inl (Panic ''nil pointer dereference''),
             \<lparr>script = [Some blankLocation], log = []\<rparr>\<lparr>script := [],
               log := log \<lparr>script = [Some blankLocation], log = []\<rparr> @ [GET authorizeURL []]\<rparr>)"
    by (rule stepTwo_refused_location [OF _ _ goLib_addresses(1) cs no])
       (simp_all add: blankLocation_def found302_def)
  then show ?thesis
    by simp
qed

text \<open>
  Claim C2, as amended. In every attempt whose exchanges answer as a login expects, and
  whose addresses \<^verbatim>\<open>http.NewRequest\<close> accepts, the text between the first \<^verbatim>\<open>state=\<close> and the
  next \<^verbatim>\<open>&\<close> of the address made from the \<^verbatim>\<open>Location\<close> of the redirect of step two is
  captured and sent as the \<^verbatim>\<open>state\<close> field of both form posts; it is not compared with the
  state recorded in step one, which is what step three posts. Whether the two are equal or
  differ, the attempt goes on through the later steps and returns the token.
\<close>

theorem handshake_ignores_state_mismatch:
  assumes "script w = Some r0 # Some r1 # Some r2 # Some r3 # Some r4 # Some r5 # rest"
    and "StatusCode r0 = 200" "endpointJSON r0 = Some (state0, url0)"
    and "StatusCode r1 = 302" "StatusCode r2 = 302" "StatusCode r3 = 302" "StatusCode r4 = 302"
    and "currentState (url_prefix @ Location r1) = Inr st"
    and "http_NewRequest L url0" "http_NewRequest L (url_prefix @ Location r1)"
    and "http_NewRequest L (url_prefix @ Location r2)" "http_NewRequest L (url_prefix @ Location r3)"
    and "tokenJSON r5 = Some resp"
    and "accessToken a = []" "entry fs (sessionName a) = None"
    and "email a \<noteq> []" "password a \<noteq> []"
  shows "fst (GetAccessToken L a w fs now) = Inr (resp_AccessToken resp)
     \<and> log (fst (snd (snd (GetAccessToken L a w fs now))))
       = log w @
          [GET endpointURL [],
           GET url0 [],
           POST (url_prefix @ Location r1) (usernameForm st (email a)) (Cookies r1),
           POST (url_prefix @ Location r2) (passwordForm st (email a) (password a)) (Cookies r1),
           GET (url_prefix @ Location r3) (Cookies r1),
           POST tokenURL (''state='' @ state0 @ ''&callbackUrl='' @ QueryEscape (Location r4)) []]"
  using handshake_run [OF assms, of now] by simp

theorem handshake_ignores_state_mismatch_witness:
  "fst (GetAccessToken goLib userAuth \<lparr>script = loginScript, log = []\<rparr> noCacheFile 7) = Inr ''fresh''
   \<and> map Body (log (fst (snd (snd (GetAccessToken goLib userAuth \<lparr>script = loginScript, log = []\<rparr> noCacheFile 7)))))
     = [[], [],
        usernameForm ''B'' ''e@x.org'',
        passwordForm ''B'' ''e@x.org'' ''pw'',
        [],
        ''state=A&callbackUrl='' @ QueryEscape ''https://chat.openai.com/api/auth/callback/auth0?code=xyz'']"
proof -
  have cs: "currentState (url_prefix @ Location identifierResponse) = Inr ''B''"
    using currentState_B by (simp add: identifierResponse_def found302_def)
  have sh: "script \<lparr>script = loginScript, log = []\<rparr>
      = Some (ok200\<lparr>endpointJSON := Some (''A'', authorizeURL)\<rparr>) # Some identifierResponse
        # Some (found302 ''/u/login/password?state=B'') # Some (found302 ''/authorize/resume?state=B'')
        # Some (found302 ''https://chat.openai.com/api/auth/callback/auth0?code=xyz'')
        # Some (ok200\<lparr>tokenJSON := Some freshToken\<rparr>) # []"
    by (simp add: loginScript_shape)
  have st: "StatusCode (ok200\<lparr>endpointJSON := Some (''A'', authorizeURL)\<rparr>) = 200"
    "endpointJSON (ok200\<lparr>endpointJSON := Some (''A'', authorizeURL)\<rparr>) = Some (''A'', authorizeURL)"
    "StatusCode identifierResponse = 302"
    "StatusCode (found302 ''/u/login/password?state=B'') = 302"
    "StatusCode (found302 ''/authorize/resume?state=B'') = 302"
    "StatusCode (found302 ''https://chat.openai.com/api/auth/callback/auth0?code=xyz'') = 302"
    by (simp_all add: ok200_def found302_def identifierResponse_def)
  have ad: "http_NewRequest goLib authorizeURL"
    "http_NewRequest goLib (url_prefix @ Location identifierResponse)"
    "http_NewRequest goLib (url_prefix @ Location (found302 ''/u/login/password?state=B''))"
    "http_NewRequest goLib (url_prefix @ Location (found302 ''/authorize/resume?state=B''))"
    by (simp_all add: goLib_addresses login_addresses)
  have tk: "tokenJSON (ok200\<lparr>tokenJSON := Some freshToken\<rparr>) = Some freshToken"
    by simp
  show ?thesis
    using handshake_ignores_state_mismatch [OF sh st cs ad tk userAuth_facts, of 7]
    by (simp add: freshToken_def GET_def POST_def userAuth_def found302_def)
qed

text \<open>
  The authorize request of step two answered by status 500 gives an error that holds the
  address and no status code; and step three does not look at the status at all: a token
  response with status 500 is taken as a success.
\<close>

theorem status_not_recorded_counterexample:
  "fst (stepTwo goLib \<lparr>script = [Some serverError], log = []\<rparr> authorizeURL ''e@x.org'' ''pw'')
     = Inl (Errorf (''bad status for url: '' @ authorizeURL))
   \<and> StatusCode serverError = 500
   \<and> fst (stepThree userAuth \<lparr>script = [Some (serverError\<lparr>tokenJSON := Some freshToken\<rparr>)], log = []\<rparr>
            ''https://chat.openai.com/api/auth/callback/auth0?code=xyz'')
     = Inr freshToken"
  using goLib_addresses(1) by (simp add: stepTwo_def stepThree_def Do_def serverError_def)

lemma stepThree_eq:
  "script w = Some r5 # rest \<Longrightarrow>
   fst (stepThree a w code_url)
     = (case tokenJSON r5 of None \<Rightarrow> Inl DecodeError | Some result \<Rightarrow> Inr result)"
  by (simp add: stepThree_def Do_next split: option.splits)

text \<open>
  Claim C4, as amended. After a redirect of the authorize request that carries a state and
  makes an address that \<^verbatim>\<open>http.NewRequest\<close> accepts, the outcome of step two follows the
  statuses of the two form posts and of the last request, in order: status 400 on a form
  post is the invalid-credentials error; any other status than 302 on a form post, and any
  status other than 302 on the last request, is a \<^verbatim>\<open>ChatError\<close> whose message holds the
  address requested and whose code is the status. A redirect of a form post whose
  \<^verbatim>\<open>Location\<close> makes an address that \<^verbatim>\<open>http.NewRequest\<close> refuses ends the step in a nil
  dereference before the next request. The outcome of step three follows the decoding of
  the body alone, not the status.
\<close>

theorem handshake_status_failures:
  assumes "script w = Some r1 # Some r2 # Some r3 # Some r4 # rest"
    and "StatusCode r1 = 302"
    and "currentState (url_prefix @ Location r1) = Inr st"
    and "http_NewRequest L auth_url" "http_NewRequest L (url_prefix @ Location r1)"
    and "script w3 = Some r5 # rest3"
  shows "fst (stepTwo L w auth_url e p)
     = (if StatusCode r2 = 400 then Inl invalidCredentials
        else if StatusCode r2 \<noteq> 302
        then Inl (ChatError (''bad status for url: '' @ url_prefix @ Location r1) (StatusCode r2))
        else if \<not> http_NewRequest L (url_prefix @ Location r2)
        then Inl (Panic ''nil pointer dereference'')
        else if StatusCode r3 = 400 then Inl invalidCredentials
        else if StatusCode r3 \<noteq> 302
        then Inl (ChatError (''bad status for url: '' @ url_prefix @ Location r2) (StatusCode r3))
        else if \<not> http_NewRequest L (url_prefix @ Location r3)
        then Inl (Panic ''nil pointer dereference'')
        else if StatusCode r4 \<noteq> 302
        then Inl (ChatError (''bad status for url: '' @ url_prefix @ Location r3) (StatusCode r4))
        else Inr (Location r4))
   \<and> fst (stepThree a w3 code_url)
     = (case tokenJSON r5 of None \<Rightarrow> Inl DecodeError | Some result \<Rightarrow> Inr result)"
  using assms
  by (simp add: stepTwo_def Do_next stepTwo_username_eq [where rest = rest] stepThree_eq)

theorem handshake_status_failures_witness:
  "script \<lparr>script = [Some identifierResponse, Some serverError, Some serverError, Some serverError], log = []\<rparr>
     = [Some identifierResponse, Some serverError, Some serverError, Some serverError]
   \<and> StatusCode identifierResponse = 302
   \<and> currentState (url_prefix @ Location identifierResponse) = Inr ''B''
   \<and> http_NewRequest goLib authorizeURL
   \<and> http_NewRequest goLib (url_prefix @ Location identifierResponse)
   \<and> fst (stepTwo goLib \<lparr>script = [Some identifierResponse, Some serverError, Some serverError, Some serverError], log = []\<rparr>
             authorizeURL ''e@x.org'' ''pw'')
     = Inl (ChatError (''bad status for url: '' @ url_prefix @ ''/u/login/identifier?state=B'') 500)
   \<and> fst (stepThree userAuth \<lparr>script = [Some (serverError\<lparr>tokenJSON := Some freshToken\<rparr>)], log = []\<rparr> authorizeURL)
     = Inr freshToken"
proof -
  have h1: "script \<lparr>script = [Some identifierResponse, Some serverError, Some serverError, Some serverError], log = []\<rparr>
     = Some identifierResponse # Some serverError # Some serverError # Some serverError # []"
    by simp
  have h2: "StatusCode identifierResponse = 302"
    by (simp add: identifierResponse_def found302_def)
  have h3: "currentState (url_prefix @ Location identifierResponse) = Inr ''B''"
    using currentState_B by (simp add: identifierResponse_def found302_def)
  have h4: "http_NewRequest goLib authorizeURL" "http_NewRequest goLib (url_prefix @ Location identifierResponse)"
    by (simp_all add: goLib_addresses login_addresses)
  have h5: "script \<lparr>script = [Some (serverError\<lparr>tokenJSON := Some freshToken\<rparr>)], log = []\<rparr>
     = Some (serverError\<lparr>tokenJSON := Some freshToken\<rparr>) # []"
    by simp
  show ?thesis
    using h1 h2 h3 h4
      handshake_status_failures [OF h1 h2 h3 h4 h5, of "''e@x.org''" "''pw''" userAuth authorizeURL]
    by (simp add: serverError_def identifierResponse_def found302_def)
qed

subsection \<open>Start\<close>

lemma cfgBoth_client:
  "auth (NewClient cfgBoth None)
     = \<lparr>email = ''e@x.org'', password = ''pw'', authState = [], apiKey = [], accessToken = ''t'',
        expires = 0, enableCache = True, clientStarted = False, sessionName = ''default''\<rparr>"
  "proxy (NewClient cfgBoth None) = None"
  by (simp_all add: NewClient_def cfgBoth_def)

text \<open>
  Claim C9, at a failing input: a client configured with email, password and access token,
  and no API key. \<^verbatim>\<open>Start\<close> takes the access-token branch: the client is started in
  access-token mode with the configured token \<open>t\<close> and no request is sent, although the
  login with email and password, had it been run against the same servers, returns the token
  \<open>fresh\<close>.
\<close>

theorem Start_takes_access_token_before_password:
  "fst (Start goLib (NewClient cfgBoth None) \<lparr>script = loginScript, log = []\<rparr> noCacheFile 0) = None
   \<and> authmode (fst (snd (Start goLib (NewClient cfgBoth None) \<lparr>script = loginScript, log = []\<rparr> noCacheFile 0)))
       = AccessTokenMode
   \<and> accessToken (auth (fst (snd (Start goLib (NewClient cfgBoth None) \<lparr>script = loginScript, log = []\<rparr> noCacheFile 0))))
       = ''t''
   \<and> log (fst (snd (snd (Start goLib (NewClient cfgBoth None) \<lparr>script = loginScript, log = []\<rparr> noCacheFile 0))))
       = []
   \<and> fst (GetAccessToken goLib (auth (NewClient cfgBoth None)\<lparr>accessToken := []\<rparr>)
             \<lparr>script = loginScript, log = []\<rparr> noCacheFile 0)
       = Inr ''fresh''"
proof -
  have s: "Start goLib (NewClient cfgBoth None) \<lparr>script = loginScript, log = []\<rparr> noCacheFile 0
      = (None,
         started (freeEngine ((NewClient cfgBoth None)\<lparr>authmode := AccessTokenMode\<rparr>)),
         \<lparr>script = loginScript, log = []\<rparr>,
         snd (cacheAccessToken goLib (auth (NewClient cfgBoth None)) noCacheFile))"
    by (simp add: Start_def Start_branches_def checkCredentials_def loadCachedAccessToken_def
        cacheAccessToken_def noCacheFile_def cfgBoth_client Let_def goLib_def writtenTime_def
        replaceBytes_def)
       (simp add: NewClient_def cfgBoth_def)
  have g: "fst (GetAccessToken goLib (auth (NewClient cfgBoth None)\<lparr>accessToken := []\<rparr>)
             \<lparr>script = loginScript, log = []\<rparr> noCacheFile 0) = Inr ''fresh''"
    by (rule login_run(1)) (simp_all add: cfgBoth_client noCacheFile_def entry_def)
  show ?thesis
    using g by (simp add: s started_def freeEngine_def cfgBoth_client)
qed

text \<open>The order of \<^verbatim>\<open>Start\<close> in general: the API key first, the access token second.\<close>

lemma Start_api_key_first:
  assumes "apiKey (auth c) \<noteq> []" "proxy c = None"
    and "checkCredentials (c\<lparr>auth := loadCachedAccessToken (auth c) fs\<rparr>) = None"
  shows "Start L c w fs now
     = (None, started (c\<lparr>auth := loadCachedAccessToken (auth c) fs, authmode := ApiKeyMode\<rparr>), w, fs)"
proof -
  have "apiKey (loadCachedAccessToken (auth c) fs) = apiKey (auth c)"
    by (simp add: loadCachedAccessToken_def split: cache_file.splits option.splits)
  with assms show ?thesis
    by (simp add: Start_def Start_branches_def Let_def)
qed

lemma Start_access_token_second:
  assumes "apiKey (auth c) = []" "proxy c = None"
    and "accessToken (loadCachedAccessToken (auth c) fs) \<noteq> []"
    and "checkCredentials (c\<lparr>auth := loadCachedAccessToken (auth c) fs\<rparr>) = None"
  shows "fst (snd (snd (Start L c w fs now))) = w
     \<and> accessToken (auth (fst (snd (Start L c w fs now)))) = accessToken (loadCachedAccessToken (auth c) fs)"
proof -
  have "apiKey (loadCachedAccessToken (auth c) fs) = []"
    using assms(1) by (simp add: loadCachedAccessToken_def split: cache_file.splits option.splits)
  with assms show ?thesis
    by (auto simp add: Start_def Start_branches_def Let_def started_def freeEngine_def
        split: prod.splits option.splits)
qed

end
